theory Spec2Isabelle
  imports Main "HOL-Library.Sublist"
begin

text \<open>
  A model of the bug-fixing agent: the webhook handler (\<open>handler\<close>, \<open>shouldProcessIssue\<close>,
  \<open>extractRepoInfo\<close>), the context engine (\<open>gatherContextForBug\<close> with the file, search
  and git operations it calls), the parser of the language model's reply
  (\<open>parseClaudeResponse\<close>) and the agent's \<open>fixBug\<close>. Each function of the source is a
  function of the same name here. A \<open>throw\<close> is a result \<open>Inl\<close> or \<open>None\<close>; what the
  source reads from outside (the checkout, the environment, the reply of the model, the
  outcome of a command) is an argument.
\<close>

section \<open>JavaScript strings\<close>

text \<open>
  A JavaScript string is a sequence of UTF-16 code units and \<open>length\<close> counts them.
  The model writes a string as a \<^typ>\<open>string\<close>, one \<^typ>\<open>char\<close> per code unit, and so
  covers the strings whose code units are all below 256 (ASCII and Latin-1).
  The helpers below are the library methods the source calls, restricted to that range.
\<close>

definition isWhiteSpace :: "char \<Rightarrow> bool" where
  \<comment> \<open>The characters of \<open>\s\<close> and of \<open>String.prototype.trim\<close> below 256: tab, line feed,
      vertical tab, form feed, carriage return, space and no-break space.\<close>
  "isWhiteSpace c = (of_char c \<in> {9, 10, 11, 12, 13, 32, 160 :: nat})"

definition toLowerCase_char :: "char \<Rightarrow> char" where
  "toLowerCase_char c =
     (let n = (of_char c :: nat)
      in if (65 \<le> n \<and> n \<le> 90) \<or> (192 \<le> n \<and> n \<le> 222 \<and> n \<noteq> 215)
         then char_of (n + 32) else c)"

definition toLowerCase :: "string \<Rightarrow> string" where
  "toLowerCase s = map toLowerCase_char s"

definition trim :: "string \<Rightarrow> string" where
  "trim s = rev (dropWhile isWhiteSpace (rev (dropWhile isWhiteSpace s)))"

fun split_on :: "char \<Rightarrow> string \<Rightarrow> string list" where
  \<comment> \<open>\<open>s.split(sep)\<close> for a one-character separator; the result is never empty.\<close>
  "split_on sep [] = [[]]"
| "split_on sep (c # cs) =
     (if c = sep then [] # split_on sep cs
      else (case split_on sep cs of
              [] \<Rightarrow> [[c]]
            | w # ws \<Rightarrow> (c # w) # ws))"

definition truthy_str :: "string option \<Rightarrow> bool" where
  \<comment> \<open>Truthiness of a value that is a string or \<open>undefined\<close> (\<open>None\<close>).\<close>
  "truthy_str v = (case v of None \<Rightarrow> False | Some s \<Rightarrow> s \<noteq> [])"

datatype js_error = Error string | TypeError string | SyntaxError string

fun message :: "js_error \<Rightarrow> string" where
  "message (Error m) = m"
| "message (TypeError m) = m"
| "message (SyntaxError m) = m"

section \<open>The webhook entry point\<close>

subsection \<open>Payload and request\<close>

record Label =
  label_id :: string
  label_name :: string

record Team =
  team_id :: string
  team_name :: string

text \<open>
  The \<open>data\<close> object of \<open>LinearWebhookPayload\<close>; its optional fields are options.
  The fields \<open>state\<close> and \<open>assignee\<close>, which no function reads, are left out.
\<close>

record IssueData =
  data_id :: string
  data_title :: string
  data_description :: "string option"
  data_priority :: "int option"
  data_url :: string
  data_labels :: "Label list option"
  data_team :: "Team option"

record LinearWebhookPayload =
  action :: string
  payload_type :: string
  payload_data :: IssueData

text \<open>
  The request body before validation: \<open>parseLinearWebhook\<close> only tests that the body and
  its \<open>action\<close>, \<open>type\<close> and \<open>data\<close> are truthy.
\<close>

record RawBody =
  raw_action :: "string option"
  raw_type :: "string option"
  raw_data :: "IssueData option"

record Request =
  req_method :: string
  linear_signature :: "string option"
  req_body :: "RawBody option"

text \<open>The environment variables the webhook reads; \<open>None\<close> is an unset variable.\<close>

record Env =
  LINEAR_WEBHOOK_SECRET :: "string option"
  REPO_MAPPING :: "string option"
  GITHUB_REPOSITORY :: "string option"

record RepoInfo =
  owner :: string
  repo :: "string option"  \<comment> \<open>\<open>None\<close> is \<open>undefined\<close>: a configured value without a slash\<close>

definition parseLinearWebhook :: "RawBody option \<Rightarrow> js_error + LinearWebhookPayload" where
  "parseLinearWebhook body =
     (case body of
        None \<Rightarrow> Inl (Error ''Invalid Linear webhook payload'')
      | Some b \<Rightarrow>
          (case (raw_action b, raw_type b, raw_data b) of
             (Some a, Some t, Some d) \<Rightarrow>
               if a = [] \<or> t = [] then Inl (Error ''Invalid Linear webhook payload'')
               else Inr \<lparr>action = a, payload_type = t, payload_data = d\<rparr>
           | _ \<Rightarrow> Inl (Error ''Invalid Linear webhook payload'')))"

subsection \<open>Signature check and trigger label\<close>

definition verifyLinearSignature :: "Env \<Rightarrow> RawBody option \<Rightarrow> string option \<Rightarrow> bool" where
  \<comment> \<open>Both paths of the source return \<open>true\<close>; the HMAC comparison is commented out.\<close>
  "verifyLinearSignature env body signature =
     (if \<not> truthy_str (LINEAR_WEBHOOK_SECRET env) then True else True)"

definition shouldProcessIssue :: "LinearWebhookPayload \<Rightarrow> bool" where
  "shouldProcessIssue payload =
     (if action payload \<noteq> ''update'' \<and> action payload \<noteq> ''create'' then False
      else
        (let labels = (case data_labels (payload_data payload) of None \<Rightarrow> [] | Some ls \<Rightarrow> ls)
         in list_ex (\<lambda>label. toLowerCase (label_name label) = ''ai-fix'') labels))"

subsection \<open>Repository resolution\<close>

definition strip_prefix :: "string \<Rightarrow> string \<Rightarrow> string option" where
  "strip_prefix p s = (if prefix p s then Some (drop (length p) s) else None)"

definition match_github_at :: "string \<Rightarrow> (string \<times> string) option" where
  \<comment> \<open>The regular expression \<open>github\.com\/([^\/]+)\/([^\/\s]+)\<close> tried at the start of \<open>s\<close>.
      Both groups are greedy and a shorter first group is never followed by a slash, so the
      groups are the maximal runs.\<close>
  "match_github_at s =
     (case strip_prefix ''github.com/'' s of
        None \<Rightarrow> None
      | Some r \<Rightarrow>
          (let g1 = takeWhile (\<lambda>c. c \<noteq> CHR ''/'') r;
               r1 = dropWhile (\<lambda>c. c \<noteq> CHR ''/'') r
           in if g1 = [] then None
              else (case r1 of
                      [] \<Rightarrow> None
                    | _ # r2 \<Rightarrow>
                        (let g2 = takeWhile (\<lambda>c. c \<noteq> CHR ''/'' \<and> \<not> isWhiteSpace c) r2
                         in if g2 = [] then None else Some (g1, g2)))))"

fun github_url_match :: "string \<Rightarrow> (string \<times> string) option" where
  \<comment> \<open>\<open>description.match(...)\<close>: the leftmost position at which the expression matches.\<close>
  "github_url_match [] = None"
| "github_url_match (c # cs) =
     (case match_github_at (c # cs) of
        Some m \<Rightarrow> Some m
      | None \<Rightarrow> github_url_match cs)"

definition strip_dot_git :: "string \<Rightarrow> string" where
  \<comment> \<open>\<open>.replace(/\.git$/, '')\<close>\<close>
  "strip_dot_git s = (if suffix ''.git'' s then take (length s - 4) s else s)"

definition second :: "'a list \<Rightarrow> 'a option" where
  \<comment> \<open>The second element of an array destructuring; \<open>None\<close> is \<open>undefined\<close>.\<close>
  "second xs = (case xs of _ # y # _ \<Rightarrow> Some y | _ \<Rightarrow> None)"

definition first :: "string list \<Rightarrow> string" where
  \<comment> \<open>The first element of the result of a split, which is never empty.\<close>
  "first xs = (case xs of [] \<Rightarrow> [] | x # _ \<Rightarrow> x)"

fun find_mapping :: "string \<Rightarrow> string list \<Rightarrow> js_error + RepoInfo option" where
  \<comment> \<open>The loop over the entries of \<open>REPO_MAPPING\<close>. \<open>Inr None\<close>: no entry matched.
      An entry without \<open>=\<close> whose team matches calls \<open>trim\<close> on \<open>undefined\<close> and throws.\<close>
  "find_mapping teamKey [] = Inr None"
| "find_mapping teamKey (mapping # mappings) =
     (let parts = split_on CHR ''='' mapping;
          team = first parts
      in if toLowerCase (trim team) = toLowerCase teamKey
         then (case second parts of
                 None \<Rightarrow> Inl (TypeError ''Cannot read properties of undefined (reading 'trim')'')
               | Some r \<Rightarrow>
                   (let ps = split_on CHR ''/'' (trim r)
                    in Inr (Some \<lparr>owner = first ps, repo = second ps\<rparr>)))
         else find_mapping teamKey mappings)"

definition teamKey_of :: "LinearWebhookPayload \<Rightarrow> string" where
  \<comment> \<open>\<open>payload.data.team?.name || payload.data.team?.id || ''\<close>\<close>
  "teamKey_of payload =
     (case data_team (payload_data payload) of
        None \<Rightarrow> []
      | Some t \<Rightarrow> if team_name t \<noteq> [] then team_name t else team_id t)"

definition repo_from_env :: "Env \<Rightarrow> RepoInfo option" where
  \<comment> \<open>Option 3 of \<open>extractRepoInfo\<close>: the single configured repository.\<close>
  "repo_from_env env =
     (case GITHUB_REPOSITORY env of
        None \<Rightarrow> None
      | Some repoEnv \<Rightarrow>
          if repoEnv = [] then None
          else (let ps = split_on CHR ''/'' repoEnv
                in Some \<lparr>owner = first ps, repo = second ps\<rparr>))"

definition extractRepoInfo :: "Env \<Rightarrow> LinearWebhookPayload \<Rightarrow> js_error + RepoInfo option" where
  "extractRepoInfo env payload =
     (let description = (case data_description (payload_data payload) of None \<Rightarrow> [] | Some d \<Rightarrow> d)
      in case github_url_match description of
           Some (g1, g2) \<Rightarrow> Inr (Some \<lparr>owner = g1, repo = Some (strip_dot_git g2)\<rparr>)
         | None \<Rightarrow>
             (let teamKey = teamKey_of payload;
                  mapped =
                    (case REPO_MAPPING env of
                       None \<Rightarrow> Inr None
                     | Some repoMapping \<Rightarrow>
                         if repoMapping \<noteq> [] \<and> teamKey \<noteq> []
                         then find_mapping teamKey (split_on CHR '','' repoMapping)
                         else Inr None)
              in case mapped of
                   Inl e \<Rightarrow> Inl e
                 | Inr (Some info) \<Rightarrow> Inr (Some info)
                 | Inr None \<Rightarrow> Inr (repo_from_env env)))"

subsection \<open>The handler\<close>

record LinearIssue =
  issue_id :: string
  title :: string
  description :: string
  priority :: int
  labels :: "string list"
  url :: string

datatype json_body =
    ErrorBody string              \<comment> \<open>\<open>{ error }\<close>\<close>
  | MessageBody string            \<comment> \<open>\<open>{ message }\<close>\<close>
  | InternalErrorBody string      \<comment> \<open>\<open>{ error: 'Internal server error', message }\<close>\<close>

text \<open>
  The handler up to the point where the repository is known. \<open>Respond\<close> is a \<open>return\<close> of
  the handler before the fix pipeline; \<open>RunPipeline\<close> stands for the rest of the body
  (clone the repository, run \<open>agent.fixBug\<close> on the issue built from the payload, post the
  comment and answer 200, or 500 from the \<open>catch\<close>), which is only reached that way.
\<close>

datatype outcome =
    Respond nat json_body
  | RunPipeline RepoInfo LinearIssue

definition issue_of_payload :: "LinearWebhookPayload \<Rightarrow> LinearIssue" where
  "issue_of_payload payload =
     (let d = payload_data payload
      in \<lparr>issue_id = data_id d,
          title = data_title d,
          description = (case data_description d of None \<Rightarrow> [] | Some s \<Rightarrow> s),
          priority = (case data_priority d of None \<Rightarrow> 0 | Some p \<Rightarrow> p),
          labels = (case data_labels d of None \<Rightarrow> [] | Some ls \<Rightarrow> map label_name ls),
          url = data_url d\<rparr>)"

definition handler :: "Env \<Rightarrow> Request \<Rightarrow> outcome" where
  "handler env req =
     (if req_method req \<noteq> ''POST'' then Respond 405 (ErrorBody ''Method not allowed'')
      else if \<not> verifyLinearSignature env (req_body req) (linear_signature req)
      then Respond 401 (ErrorBody ''Invalid signature'')
      else (case parseLinearWebhook (req_body req) of
              Inl e \<Rightarrow> Respond 500 (InternalErrorBody (message e))
            | Inr payload \<Rightarrow>
                if \<not> shouldProcessIssue payload
                then Respond 200 (MessageBody ''Issue ignored (no ai-fix label)'')
                else (case extractRepoInfo env payload of
                        Inl e \<Rightarrow> Respond 500 (InternalErrorBody (message e))
                      | Inr None \<Rightarrow> Respond 400 (ErrorBody ''Could not determine GitHub repository'')
                      | Inr (Some repoInfo) \<Rightarrow> RunPipeline repoInfo (issue_of_payload payload))))"

definition description_of :: "LinearWebhookPayload \<Rightarrow> string" where
  \<comment> \<open>\<open>payload.data.description || ''\<close>\<close>
  "description_of payload =
     (case data_description (payload_data payload) of None \<Rightarrow> [] | Some d \<Rightarrow> d)"

section \<open>The context engine\<close>

subsection \<open>The checkout\<close>

text \<open>
  The directory at \<open>repoPath\<close> as the engine sees it through \<open>fs\<close>: a file with its text,
  a file whose read fails, a directory with its entries in the order \<open>readdir\<close> returns
  them, and a directory whose \<open>readdir\<close> fails with the given message (missing, or no
  permission), which also cannot be entered.
\<close>

datatype fsnode =
    File string
  | Unreadable
  | Dir "(string \<times> fsnode) list"
  | Unlistable string

fun isDirectory :: "fsnode \<Rightarrow> bool" where
  "isDirectory (Dir es) = True"
| "isDirectory (Unlistable m) = True"
| "isDirectory n = False"

fun resolve :: "fsnode \<Rightarrow> string list \<Rightarrow> fsnode option" where
  "resolve n [] = Some n"
| "resolve (Dir es) (seg # segs) =
     (case map_of es seg of None \<Rightarrow> None | Some n \<Rightarrow> resolve n segs)"
| "resolve n (seg # segs) = None"

definition readFile :: "fsnode \<Rightarrow> string \<Rightarrow> string option" where
  \<comment> \<open>\<open>readFile(filePath)\<close>; \<open>None\<close> is the \<open>throw\<close>. Every path the engine reads is a
      sequence of plain names separated by slashes, which \<open>path.join\<close> leaves as it is.\<close>
  "readFile root filePath =
     (case resolve root (split_on CHR ''/'' filePath) of
        Some (File content) \<Rightarrow> Some content
      | _ \<Rightarrow> None)"

definition skipped :: "string \<Rightarrow> bool" where
  \<comment> \<open>The entries \<open>walk\<close> passes over: \<open>entry.name.startsWith('.') || entry.name === 'node_modules'\<close>\<close>
  "skipped name = (prefix ''.'' name \<or> name = ''node_modules'')"

fun walk :: "fsnode \<Rightarrow> js_error + string list"
  and walk_entries :: "(string \<times> fsnode) list \<Rightarrow> js_error + string list" where
  \<comment> \<open>\<open>walk(dir)\<close> of \<open>listFiles\<close>. Each file is pushed as \<open>path.relative(dir, fullPath)\<close>
      with \<open>dir\<close> the directory being walked, which is the entry's bare name.\<close>
  "walk (Dir es) = walk_entries es"
| "walk (Unlistable m) = Inl (Error m)"
| "walk (File c) = Inl (Error ''ENOTDIR: not a directory, scandir'')"
| "walk Unreadable = Inl (Error ''ENOTDIR: not a directory, scandir'')"
| "walk_entries [] = Inr []"
| "walk_entries ((name, n) # es) =
     (if skipped name then walk_entries es
      else if isDirectory n
      then (case walk n of
              Inl e \<Rightarrow> Inl e
            | Inr fs \<Rightarrow> (case walk_entries es of Inl e \<Rightarrow> Inl e | Inr r \<Rightarrow> Inr (fs @ r)))
      else (case walk_entries es of Inl e \<Rightarrow> Inl e | Inr r \<Rightarrow> Inr (name # r)))"

definition listFiles :: "fsnode \<Rightarrow> js_error + string list" where
  "listFiles root = walk root"

record SearchHit =
  hit_file :: string
  hit_line :: nat
  hit_content :: string

definition hits_in :: "string \<Rightarrow> string \<Rightarrow> string \<Rightarrow> SearchHit list" where
  \<comment> \<open>The \<open>forEach\<close> over the lines of one file.\<close>
  "hits_in file content pattern =
     (let lines = split_on CHR 0x0A content
      in map (\<lambda>(index, line). \<lparr>hit_file = file, hit_line = index + 1, hit_content = trim line\<rparr>)
           (filter (\<lambda>(index, line). sublist pattern line) (zip [0 ..< length lines] lines)))"

definition search_file :: "fsnode \<Rightarrow> string \<Rightarrow> string list option \<Rightarrow> string \<Rightarrow> SearchHit list" where
  \<comment> \<open>One round of the loop of \<open>searchCode\<close>.\<close>
  "search_file root pattern fileExtensions file =
     (if (case fileExtensions of None \<Rightarrow> False
          | Some exts \<Rightarrow> \<not> list_ex (\<lambda>ext. suffix ext file) exts) then []
      else (case readFile root file of
              None \<Rightarrow> []
            | Some content \<Rightarrow> hits_in file content pattern))"

definition searchCode :: "fsnode \<Rightarrow> string \<Rightarrow> string list option \<Rightarrow> js_error + SearchHit list" where
  "searchCode root pattern fileExtensions =
     (case listFiles root of
        Inl e \<Rightarrow> Inl e
      | Inr files \<Rightarrow> Inr (concat (map (search_file root pattern fileExtensions) files)))"

subsection \<open>Git log\<close>

record Commit =
  sha :: string
  commit_message :: "string option"
  author :: "string option"
  date :: "string option"

definition nth_opt :: "'a list \<Rightarrow> nat \<Rightarrow> 'a option" where
  "nth_opt xs i = (if i < length xs then Some (xs ! i) else None)"

definition digit_char :: "nat \<Rightarrow> char" where
  "digit_char d = char_of (48 + d)"

fun show_nat :: "nat \<Rightarrow> string" where
  "show_nat n = (if n < 10 then [digit_char n] else show_nat (n div 10) @ [digit_char (n mod 10)])"

declare show_nat.simps [simp del]

definition git_log_command :: "string option \<Rightarrow> nat \<Rightarrow> string" where
  "git_log_command filePath limit =
     ''git log -'' @ show_nat limit @ '' --pretty=format:\"%H|%s|%an|%ai\" '' @
     (case filePath of None \<Rightarrow> [] | Some f \<Rightarrow> if f = [] then [] else ''-- \"'' @ f @ ''\"'')"

definition parse_commit :: "string \<Rightarrow> Commit" where
  "parse_commit line =
     (let parts = split_on CHR ''|'' line
      in \<lparr>sha = first parts, commit_message = nth_opt parts 1,
          author = nth_opt parts 2, date = nth_opt parts 3\<rparr>)"

definition getRecentCommits :: "(string \<Rightarrow> string option) \<Rightarrow> string option \<Rightarrow> nat \<Rightarrow> Commit list" where
  \<comment> \<open>\<open>execSync\<close> is the first argument: the output of a command, or \<open>None\<close> when it throws.\<close>
  "getRecentCommits execSync filePath limit =
     (case execSync (git_log_command filePath limit) of
        None \<Rightarrow> []
      | Some output \<Rightarrow>
          map parse_commit (filter (\<lambda>line. line \<noteq> []) (split_on CHR 0x0A output)))"

subsection \<open>\<open>JSON.stringify\<close> of search hits and commits\<close>

definition hex_char :: "nat \<Rightarrow> char" where
  "hex_char d = (if d < 10 then char_of (48 + d) else char_of (87 + d))"

definition json_escape :: "char \<Rightarrow> string" where
  \<comment> \<open>\<open>QuoteJSONString\<close> for one code unit below 256.\<close>
  "json_escape c =
     (let n = (of_char c :: nat)
      in if n = 8 then [CHR 0x5C, CHR ''b'']
         else if n = 9 then [CHR 0x5C, CHR ''t'']
         else if n = 10 then [CHR 0x5C, CHR ''n'']
         else if n = 12 then [CHR 0x5C, CHR ''f'']
         else if n = 13 then [CHR 0x5C, CHR ''r'']
         else if n = 34 then [CHR 0x5C, CHR 0x22]
         else if n = 92 then [CHR 0x5C, CHR 0x5C]
         else if n < 32
         then [CHR 0x5C, CHR ''u'', CHR ''0'', CHR ''0'', hex_char (n div 16), hex_char (n mod 16)]
         else [c])"

definition json_string :: "string \<Rightarrow> string" where
  "json_string s = CHR 0x22 # concat (map json_escape s) @ [CHR 0x22]"

fun join :: "string \<Rightarrow> string list \<Rightarrow> string" where
  "join sep [] = []"
| "join sep [x] = x"
| "join sep (x # y # ys) = x @ sep @ join sep (y # ys)"

definition json_array :: "string list \<Rightarrow> string" where
  "json_array items = ''['' @ join '','' items @ '']''"

definition json_object :: "(string \<times> string option) list \<Rightarrow> string" where
  \<comment> \<open>A property whose value is \<open>undefined\<close> (\<open>None\<close>) is left out.\<close>
  "json_object props =
     ''{'' @ join '','' (concat (map (\<lambda>(k, v). case v of None \<Rightarrow> []
                                      | Some j \<Rightarrow> [json_string k @ '':'' @ j]) props)) @ ''}''"

definition stringify_hits :: "SearchHit list \<Rightarrow> string" where
  "stringify_hits hs =
     json_array (map (\<lambda>h. json_object
        [(''file'', Some (json_string (hit_file h))),
         (''line'', Some (show_nat (hit_line h))),
         (''content'', Some (json_string (hit_content h)))]) hs)"

definition stringify_commits :: "Commit list \<Rightarrow> string" where
  "stringify_commits cs =
     json_array (map (\<lambda>c. json_object
        [(''sha'', Some (json_string (sha c))),
         (''message'', map_option json_string (commit_message c)),
         (''author'', map_option json_string (author c)),
         (''date'', map_option json_string (date c))]) cs)"

subsection \<open>Signals of an issue\<close>

definition isDigit :: "char \<Rightarrow> bool" where
  "isDigit c = (let n = (of_char c :: nat) in 48 \<le> n \<and> n \<le> 57)"

definition isWordChar :: "char \<Rightarrow> bool" where
  \<comment> \<open>\<open>\w\<close>\<close>
  "isWordChar c =
     (let n = (of_char c :: nat)
      in (48 \<le> n \<and> n \<le> 57) \<or> (65 \<le> n \<and> n \<le> 90) \<or> n = 95 \<or> (97 \<le> n \<and> n \<le> 122))"

definition isPathChar :: "char \<Rightarrow> bool" where
  \<comment> \<open>\<open>[\w-]\<close>\<close>
  "isPathChar c = (isWordChar c \<or> c = CHR ''-'')"

definition isLineTerminator :: "char \<Rightarrow> bool" where
  \<comment> \<open>The characters below 256 that \<open>.\<close> does not match and before which \<open>$\<close> matches.\<close>
  "isLineTerminator c = (c = CHR 0x0A \<or> c = CHR 0x0D)"

function match_path :: "string \<Rightarrow> (string \<times> string) option" where
  \<comment> \<open>\<open>(?:[\w-]+\/)*[\w-]+\.\w+\<close> at the start of \<open>s\<close>: the text matched and what follows it.
      Each run is greedy, and giving characters back never helps, since the character after
      a shorter run is a path character and neither a slash nor a dot.\<close>
  "match_path s =
     (let seg = takeWhile isPathChar s;
          rest = dropWhile isPathChar s
      in if seg = [] then None
         else (case rest of
                 [] \<Rightarrow> None
               | c # r \<Rightarrow>
                   if c = CHR ''/''
                   then (case match_path r of
                           None \<Rightarrow> None
                         | Some (m, r') \<Rightarrow> Some (seg @ CHR ''/'' # m, r'))
                   else if c = CHR ''.''
                   then (let ext = takeWhile isWordChar r
                         in if ext = [] then None
                            else Some (seg @ CHR ''.'' # ext, dropWhile isWordChar r))
                   else None))"
  by pat_completeness auto
termination
proof (relation "measure length")
  fix s seg rest c r
  assume "rest = dropWhile isPathChar s" "rest = c # r"
  then have "length (c # r) \<le> length s"
    using length_dropWhile_le [of isPathChar s] by simp
  then show "(r, s) \<in> measure length" by simp
qed simp

declare match_path.simps [simp del]

definition match_file :: "string \<Rightarrow> string option" where
  \<comment> \<open>\<open>filePattern\<close> at the start of \<open>s\<close>: \<open>match_path\<close> and then \<open>(?::\d+)?\<close>.\<close>
  "match_file s =
     (case match_path s of
        None \<Rightarrow> None
      | Some (m, r) \<Rightarrow>
          (case r of
             [] \<Rightarrow> Some m
           | c # r' \<Rightarrow>
               if c = CHR '':'' \<and> takeWhile isDigit r' \<noteq> []
               then Some (m @ CHR '':'' # takeWhile isDigit r')
               else Some m))"

definition match_error :: "string \<Rightarrow> string option" where
  \<comment> \<open>\<open>errorPattern\<close> at the start of \<open>s\<close>: one of the keywords, then the rest of the line.\<close>
  "match_error s =
     (if list_ex (\<lambda>k. prefix k s) [''Error'', ''Exception'', ''Failed'', ''TypeError'', ''ReferenceError'']
      then Some (takeWhile (\<lambda>c. \<not> isLineTerminator c) s)
      else None)"

fun match_all :: "(string \<Rightarrow> string option) \<Rightarrow> nat \<Rightarrow> string \<Rightarrow> string list" where
  \<comment> \<open>\<open>text.match(re) || []\<close> for a global expression that matches no empty string:
      \<open>matchAt s\<close> is the match at the start of \<open>s\<close>, and the number counts the characters
      of the last match that are still to be passed over.\<close>
  "match_all matchAt k [] = []"
| "match_all matchAt (Suc k) (c # cs) = match_all matchAt k cs"
| "match_all matchAt 0 (c # cs) =
     (case matchAt (c # cs) of
        None \<Rightarrow> match_all matchAt 0 cs
      | Some m \<Rightarrow> m # match_all matchAt (length m - 1) cs)"

definition unique :: "'a list \<Rightarrow> 'a list" where
  \<comment> \<open>\<open>[...new Set(xs)]\<close>: the first occurrence of each element, in order.\<close>
  "unique xs = foldl (\<lambda>acc x. if x \<in> set acc then acc else acc @ [x]) [] xs"

text \<open>
  Of the four lists of \<open>extractSignalsFromIssue\<close> the engine reads \<open>files\<close> and \<open>errors\<close>;
  \<open>functions\<close> and \<open>stackTrace\<close> are computed and never used, and are left out.
\<close>

record Signals =
  signal_files :: "string list"
  signal_errors :: "string list"

definition extractSignalsFromIssue :: "LinearIssue \<Rightarrow> Signals" where
  "extractSignalsFromIssue issue =
     (let text = title issue @ [CHR 0x0A] @ description issue
      in \<lparr>signal_files = unique (map (\<lambda>f. first (split_on CHR '':'' f)) (match_all match_file 0 text)),
          signal_errors = unique (match_all match_error 0 text)\<rparr>)"

subsection \<open>Gathering the context\<close>

record FileContext =
  path :: string
  content :: string
  lineCount :: nat

record BugContext =
  staticContext :: string
  issueDetails :: LinearIssue
  relevantFiles :: "FileContext list"
  recentCommits :: "Commit list"
  searchResults :: "SearchHit list"
  estimatedTokens :: nat

definition TOKEN_BUDGET :: nat where
  "TOKEN_BUDGET = 100000"

text \<open>
  The source compares the running total with \<open>TOKEN_BUDGET * 0.7\<close>, \<open>* 0.8\<close> and \<open>* 0.85\<close>.
  In double arithmetic these three products are exactly 70000, 80000 and 85000.
\<close>

definition files_limit :: nat where
  "files_limit = TOKEN_BUDGET * 7 div 10"

definition search_limit :: nat where
  "search_limit = TOKEN_BUDGET * 8 div 10"

definition commits_limit :: nat where
  "commits_limit = TOKEN_BUDGET * 85 div 100"

definition estimateTokens :: "string \<Rightarrow> nat" where
  \<comment> \<open>\<open>Math.ceil(text.length / 4)\<close>\<close>
  "estimateTokens text = (length text + 3) div 4"

definition load_static :: "fsnode \<Rightarrow> string \<times> nat" where
  \<comment> \<open>Step 1: the static context and the tokens counted for it.\<close>
  "load_static root =
     (case readFile root ''.ai/context.md'' of
        Some c \<Rightarrow> (c, estimateTokens c)
      | None \<Rightarrow> (''No project context file found.'', 0))"

fun add_files :: "fsnode \<Rightarrow> string list \<Rightarrow> FileContext list \<times> nat \<Rightarrow> FileContext list \<times> nat" where
  \<comment> \<open>Step 3: the loop over \<open>signals.files\<close>, on \<open>context.relevantFiles\<close> and \<open>tokensUsed\<close>.\<close>
  "add_files root [] (fs, tokensUsed) = (fs, tokensUsed)"
| "add_files root (filePath # rest) (fs, tokensUsed) =
     (if tokensUsed \<ge> files_limit then (fs, tokensUsed)
      else (case readFile root filePath of
              None \<Rightarrow> add_files root rest (fs, tokensUsed)
            | Some c \<Rightarrow>
                (let tokens = estimateTokens c
                 in if tokensUsed + tokens < files_limit
                    then add_files root rest
                           (fs @ [\<lparr>path = filePath, content = c,
                                   lineCount = length (split_on CHR 0x0A c)\<rparr>],
                            tokensUsed + tokens)
                    else add_files root rest (fs, tokensUsed))))"

definition search_extensions :: "string list" where
  "search_extensions = [''.ts'', ''.tsx'', ''.js'', ''.jsx'', ''.py'', ''.go'', ''.rs'']"

definition search_step :: "fsnode \<Rightarrow> Signals \<Rightarrow> nat \<Rightarrow> js_error + SearchHit list \<times> nat" where
  \<comment> \<open>Step 4, on \<open>context.searchResults\<close> (empty so far) and \<open>tokensUsed\<close>.\<close>
  "search_step root signals tokensUsed =
     (case signal_errors signals of
        [] \<Rightarrow> Inr ([], tokensUsed)
      | e # es \<Rightarrow>
          if tokensUsed < search_limit
          then (case searchCode root e (Some search_extensions) of
                  Inl err \<Rightarrow> Inl err
                | Inr hits \<Rightarrow>
                    Inr (take 20 hits, tokensUsed + estimateTokens (stringify_hits (take 20 hits))))
          else Inr ([], tokensUsed))"

definition commits_step :: "(string \<Rightarrow> string option) \<Rightarrow> nat \<Rightarrow> Commit list \<times> nat" where
  \<comment> \<open>Step 5, on \<open>context.recentCommits\<close> (empty so far) and \<open>tokensUsed\<close>.\<close>
  "commits_step execSync tokensUsed =
     (if tokensUsed < commits_limit
      then (let cs = getRecentCommits execSync None 5
            in (cs, tokensUsed + estimateTokens (stringify_commits cs)))
      else ([], tokensUsed))"

definition gatherContextForBug ::
  "fsnode \<Rightarrow> (string \<Rightarrow> string option) \<Rightarrow> LinearIssue \<Rightarrow> js_error + BugContext" where
  \<comment> \<open>\<open>Inl\<close>: the promise is rejected.\<close>
  "gatherContextForBug root execSync issue =
     (let (static, t1) = load_static root;
          signals = extractSignalsFromIssue issue;
          (files, t2) = add_files root (signal_files signals) ([], t1)
      in case search_step root signals t2 of
           Inl err \<Rightarrow> Inl err
         | Inr (hits, t3) \<Rightarrow>
             (let (commits, t4) = commits_step execSync t3
              in Inr \<lparr>staticContext = static, issueDetails = issue, relevantFiles = files,
                      recentCommits = commits, searchResults = hits,
                      estimatedTokens = t4\<rparr>))"

text \<open>The value of \<open>tokensUsed\<close> after step 1 and after step 3.\<close>

definition tokens_after_static :: "fsnode \<Rightarrow> nat" where
  "tokens_after_static root = snd (load_static root)"

definition tokens_after_files :: "fsnode \<Rightarrow> LinearIssue \<Rightarrow> nat" where
  "tokens_after_files root issue =
     snd (add_files root (signal_files (extractSignalsFromIssue issue))
            ([], tokens_after_static root))"

section \<open>The fix generator\<close>

subsection \<open>JavaScript values\<close>

text \<open>
  The values \<open>JSON.parse\<close> returns, and \<open>undefined\<close> for a property that is not there.
  \<open>JNumber m e\<close> is the double nearest to \<open>m * 10 ^ e\<close>. An object holds its members in
  the order written; of two members with one key the later is the property's value.
\<close>

datatype jsvalue =
    JUndefined
  | JNull
  | JBool bool
  | JNumber int int
  | JString string
  | JArray "jsvalue list"
  | JObject "(string \<times> jsvalue) list"

definition rounds_to_zero :: "int \<Rightarrow> int \<Rightarrow> bool" where
  \<comment> \<open>The double nearest to \<open>m * 10 ^ e\<close> is zero: the magnitude is at most \<open>2 ^ -1075\<close>,
      half of the least positive double.\<close>
  "rounds_to_zero m e =
     (m = 0 \<or> (e < 0 \<and> \<bar>m\<bar> * 2 ^ 1075 \<le> 10 ^ nat (- e)))"

fun truthy :: "jsvalue \<Rightarrow> bool" where
  "truthy JUndefined = False"
| "truthy JNull = False"
| "truthy (JBool b) = b"
| "truthy (JNumber m e) = (\<not> rounds_to_zero m e)"
| "truthy (JString s) = (s \<noteq> [])"
| "truthy (JArray xs) = True"
| "truthy (JObject kvs) = True"

fun get_prop :: "jsvalue \<Rightarrow> string \<Rightarrow> jsvalue" where
  \<comment> \<open>\<open>v.key\<close> for a value that is neither \<open>null\<close> nor \<open>undefined\<close> and one of the keys
      the agent reads (\<open>reasoning\<close>, \<open>description\<close>, \<open>changes\<close>, \<open>path\<close>, \<open>content\<close>), none
      of which a prototype defines.\<close>
  "get_prop (JObject kvs) key = (case map_of (rev kvs) key of None \<Rightarrow> JUndefined | Some v \<Rightarrow> v)"
| "get_prop v key = JUndefined"

fun isNullish :: "jsvalue \<Rightarrow> bool" where
  "isNullish JUndefined = True"
| "isNullish JNull = True"
| "isNullish v = False"

definition cannot_read :: "jsvalue \<Rightarrow> string \<Rightarrow> js_error" where
  \<comment> \<open>The \<open>TypeError\<close> of a property read on \<open>null\<close> or \<open>undefined\<close>, in V8's words.\<close>
  "cannot_read v key =
     TypeError (''Cannot read properties of '' @ (if v = JNull then ''null'' else ''undefined'')
                @ '' (reading '' @ [CHR 0x27] @ key @ [CHR 0x27] @ '')'')"

subsection \<open>Parsing the reply\<close>

record ParsedFix =
  fix_success :: bool
  fix_changes :: "jsvalue list"
  fix_description :: jsvalue
  fix_reasoning :: jsvalue
  fix_error :: "string option"

definition json_match :: "string \<Rightarrow> string option" where
  \<comment> \<open>\<open>text.match(/\{[\s\S]*\}/)\<close>: from the first opening brace to the last closing brace.\<close>
  "json_match text =
     (let s = dropWhile (\<lambda>c. c \<noteq> CHR ''{'') text
      in if s \<noteq> [] \<and> CHR ''}'' \<in> set s
         then Some (rev (dropWhile (\<lambda>c. c \<noteq> CHR ''}'') (rev s)))
         else None)"

definition could_not_fix :: string where
  "could_not_fix = ''AI could not generate a confident fix''"

definition parse_failed :: "string \<Rightarrow> js_error \<Rightarrow> ParsedFix" where
  \<comment> \<open>The \<open>catch\<close> block of \<open>parseClaudeResponse\<close>.\<close>
  "parse_failed text e =
     \<lparr>fix_success = False, fix_changes = [],
      fix_description = JString ''Failed to parse AI response'',
      fix_reasoning = JString (take 500 text),
      fix_error = Some (message e)\<rparr>"

definition parseClaudeResponse :: "(string \<Rightarrow> string + jsvalue) \<Rightarrow> string \<Rightarrow> ParsedFix" where
  \<comment> \<open>The first argument is \<open>JSON.parse\<close>: the value, or the message of its \<open>SyntaxError\<close>.\<close>
  "parseClaudeResponse JSON_parse text =
     (case json_match text of
        None \<Rightarrow> parse_failed text (Error ''No JSON found in response'')
      | Some jsonMatch \<Rightarrow>
          (case JSON_parse jsonMatch of
             Inl msg \<Rightarrow> parse_failed text (SyntaxError msg)
           | Inr parsed \<Rightarrow>
               if isNullish parsed then parse_failed text (cannot_read parsed ''reasoning'')
               else if \<not> truthy (get_prop parsed ''reasoning'') \<or> \<not> truthy (get_prop parsed ''description'')
               then parse_failed text (Error ''Invalid response structure'')
               else (case get_prop parsed ''changes'' of
                       JArray changes \<Rightarrow>
                         if changes = []
                         then \<lparr>fix_success = False, fix_changes = [],
                               fix_description = get_prop parsed ''description'',
                               fix_reasoning = get_prop parsed ''reasoning'',
                               fix_error = Some could_not_fix\<rparr>
                         else \<lparr>fix_success = True, fix_changes = changes,
                               fix_description = get_prop parsed ''description'',
                               fix_reasoning = get_prop parsed ''reasoning'',
                               fix_error = None\<rparr>
                     | _ \<Rightarrow> parse_failed text (Error ''Invalid response structure''))))"

subsection \<open>A JSON parser\<close>

text \<open>
  \<open>JSON.parse\<close> is an argument of the model, and every property of the parser of
  replies is proved for all of its values. For the examples it is instantiated with
  \<open>JSON_parse_ref\<close>, a parser of the JSON grammar whose \<open>SyntaxError\<close> has one fixed
  message. Its recursion runs on a counter that starts above the length of the text, while
  every call consumes a character.
\<close>

definition isJsonSpace :: "char \<Rightarrow> bool" where
  "isJsonSpace c = (of_char c \<in> {9, 10, 13, 32 :: nat})"

definition hex_value :: "char \<Rightarrow> nat option" where
  "hex_value c =
     (let n = (of_char c :: nat)
      in if 48 \<le> n \<and> n \<le> 57 then Some (n - 48)
         else if 65 \<le> n \<and> n \<le> 70 then Some (n - 55)
         else if 97 \<le> n \<and> n \<le> 102 then Some (n - 87)
         else None)"

definition unescape :: "char \<Rightarrow> char option" where
  "unescape c =
     (if c = CHR 0x22 \<or> c = CHR 0x5C \<or> c = CHR ''/'' then Some c
      else if c = CHR ''b'' then Some (CHR 0x08)
      else if c = CHR ''f'' then Some (CHR 0x0C)
      else if c = CHR ''n'' then Some (CHR 0x0A)
      else if c = CHR ''r'' then Some (CHR 0x0D)
      else if c = CHR ''t'' then Some (CHR 0x09)
      else None)"

fun parse_string :: "string \<Rightarrow> (string \<times> string) option" where
  \<comment> \<open>After the opening quote: the string and the text after the closing quote. An escape
      \<open>\uXXXX\<close> of a code unit from 256 on is outside the strings of the model.\<close>
  "parse_string [] = None"
| "parse_string (c # cs) =
     (if c = CHR 0x22 then Some ([], cs)
      else if c = CHR 0x5C
      then (case cs of
              [] \<Rightarrow> None
            | e # r \<Rightarrow>
                if e = CHR ''u''
                then (case r of
                        h1 # h2 # h3 # h4 # r' \<Rightarrow>
                          (case (hex_value h1, hex_value h2, hex_value h3, hex_value h4) of
                             (Some a, Some b, Some c', Some d) \<Rightarrow>
                               if a = 0 \<and> b = 0
                               then map_option (\<lambda>(s, t). (char_of (16 * c' + d) # s, t))
                                      (parse_string r')
                               else None
                           | _ \<Rightarrow> None)
                      | _ \<Rightarrow> None)
                else (case unescape e of
                        None \<Rightarrow> None
                      | Some ch \<Rightarrow> map_option (\<lambda>(s, t). (ch # s, t)) (parse_string r)))
      else if (of_char c :: nat) < 32 then None
      else map_option (\<lambda>(s, t). (c # s, t)) (parse_string cs))"

definition digits_value :: "string \<Rightarrow> int" where
  "digits_value ds = foldl (\<lambda>n d. 10 * n + (int (of_char d) - 48)) 0 ds"

definition parse_number :: "string \<Rightarrow> (jsvalue \<times> string) option" where
  \<comment> \<open>\<open>-? (0 | [1-9][0-9]*) (. [0-9]+)? ([eE] [+-]? [0-9]+)?\<close>\<close>
  "parse_number s =
     (let (neg, s1) = (case s of c # r \<Rightarrow> if c = CHR ''-'' then (True, r) else (False, s)
                        | [] \<Rightarrow> (False, s));
          ip = takeWhile isDigit s1;
          s2 = dropWhile isDigit s1
      in if ip = [] \<or> (length ip > 1 \<and> hd ip = CHR ''0'') then None
         else
           (let (fp, s3) =
                  (case s2 of
                     c # r \<Rightarrow> if c = CHR ''.'' \<and> takeWhile isDigit r \<noteq> []
                              then (Some (takeWhile isDigit r), dropWhile isDigit r)
                              else (None, s2)
                   | [] \<Rightarrow> (None, s2));
                malformed_fraction = (case s2 of c # r \<Rightarrow> c = CHR ''.'' \<and> fp = None | [] \<Rightarrow> False);
                (ex, s4) =
                  (case s3 of
                     c # r \<Rightarrow>
                       if c = CHR ''e'' \<or> c = CHR ''E''
                       then (case r of
                               g # r' \<Rightarrow>
                                 if (g = CHR ''+'' \<or> g = CHR ''-'') \<and> takeWhile isDigit r' \<noteq> []
                                 then (Some ((if g = CHR ''-'' then - 1 else 1)
                                               * digits_value (takeWhile isDigit r')),
                                       dropWhile isDigit r')
                                 else if takeWhile isDigit r \<noteq> []
                                 then (Some (digits_value (takeWhile isDigit r)), dropWhile isDigit r)
                                 else (None, s3)
                             | [] \<Rightarrow> (None, s3))
                       else (Some 0, s3)
                   | [] \<Rightarrow> (Some 0, s3));
                frac = (case fp of None \<Rightarrow> [] | Some f \<Rightarrow> f)
            in if malformed_fraction then None
               else (case ex of
                       None \<Rightarrow> None
                     | Some x \<Rightarrow>
                         Some (JNumber ((if neg then - 1 else 1) * digits_value (ip @ frac))
                                 (x - int (length frac)), s4))))"

fun parse_value :: "nat \<Rightarrow> string \<Rightarrow> (jsvalue \<times> string) option"
  and parse_elements :: "nat \<Rightarrow> string \<Rightarrow> (jsvalue list \<times> string) option"
  and parse_members :: "nat \<Rightarrow> string \<Rightarrow> ((string \<times> jsvalue) list \<times> string) option" where
  "parse_value 0 s = None"
| "parse_value (Suc n) s =
     (case dropWhile isJsonSpace s of
        [] \<Rightarrow> None
      | c # cs \<Rightarrow>
          if c = CHR ''{''
          then (case dropWhile isJsonSpace cs of
                  [] \<Rightarrow> None
                | d # r \<Rightarrow>
                    if d = CHR ''}'' then Some (JObject [], r)
                    else map_option (\<lambda>(kvs, t). (JObject kvs, t)) (parse_members n cs))
          else if c = CHR ''[''
          then (case dropWhile isJsonSpace cs of
                  [] \<Rightarrow> None
                | d # r \<Rightarrow>
                    if d = CHR '']'' then Some (JArray [], r)
                    else map_option (\<lambda>(vs, t). (JArray vs, t)) (parse_elements n cs))
          else if c = CHR 0x22
          then map_option (\<lambda>(str, t). (JString str, t)) (parse_string cs)
          else if prefix ''true'' (c # cs) then Some (JBool True, drop 4 (c # cs))
          else if prefix ''false'' (c # cs) then Some (JBool False, drop 5 (c # cs))
          else if prefix ''null'' (c # cs) then Some (JNull, drop 4 (c # cs))
          else parse_number (c # cs))"
| "parse_elements 0 s = None"
| "parse_elements (Suc n) s =
     (case parse_value n s of
        None \<Rightarrow> None
      | Some (v, r) \<Rightarrow>
          (case dropWhile isJsonSpace r of
             [] \<Rightarrow> None
           | c # r' \<Rightarrow>
               if c = CHR '','' then map_option (\<lambda>(vs, t). (v # vs, t)) (parse_elements n r')
               else if c = CHR '']'' then Some ([v], r')
               else None))"
| "parse_members 0 s = None"
| "parse_members (Suc n) s =
     (case dropWhile isJsonSpace s of
        [] \<Rightarrow> None
      | q # r \<Rightarrow>
          if q \<noteq> CHR 0x22 then None
          else (case parse_string r of
                  None \<Rightarrow> None
                | Some (k, r1) \<Rightarrow>
                    (case dropWhile isJsonSpace r1 of
                       [] \<Rightarrow> None
                     | c # r2 \<Rightarrow>
                         if c \<noteq> CHR '':'' then None
                         else (case parse_value n r2 of
                                 None \<Rightarrow> None
                               | Some (v, r3) \<Rightarrow>
                                   (case dropWhile isJsonSpace r3 of
                                      [] \<Rightarrow> None
                                    | d # r4 \<Rightarrow>
                                        if d = CHR '',''
                                        then map_option (\<lambda>(kvs, t). ((k, v) # kvs, t))
                                               (parse_members n r4)
                                        else if d = CHR ''}'' then Some ([(k, v)], r4)
                                        else None)))))"

definition JSON_parse_ref :: "string \<Rightarrow> string + jsvalue" where
  "JSON_parse_ref s =
     (case parse_value (Suc (length s)) s of
        None \<Rightarrow> Inl ''Unexpected token in JSON''
      | Some (v, r) \<Rightarrow>
          if dropWhile isJsonSpace r = [] then Inr v else Inl ''Unexpected token in JSON'')"

section \<open>The agent\<close>

subsection \<open>Template literals\<close>

fun to_string :: "(int \<Rightarrow> int \<Rightarrow> string) \<Rightarrow> jsvalue \<Rightarrow> js_error + string"
  and join_values :: "(int \<Rightarrow> int \<Rightarrow> string) \<Rightarrow> jsvalue list \<Rightarrow> js_error + string" where
  \<comment> \<open>\<open>ToString\<close> of a parsed value, as a template literal applies it; the first argument
      prints a number. An object with a member \<open>toString\<close>, which cannot be a function,
      has no primitive value. \<open>join_values\<close> is \<open>Array.prototype.join\<close> with a comma.\<close>
  "to_string num JUndefined = Inr ''undefined''"
| "to_string num JNull = Inr ''null''"
| "to_string num (JBool b) = Inr (if b then ''true'' else ''false'')"
| "to_string num (JNumber m e) = Inr (num m e)"
| "to_string num (JString s) = Inr s"
| "to_string num (JArray xs) = join_values num xs"
| "to_string num (JObject kvs) =
     (if ''toString'' \<in> fst ` set kvs
      then Inl (TypeError ''Cannot convert object to primitive value'')
      else Inr ''[object Object]'')"
| "join_values num [] = Inr []"
| "join_values num (x # xs) =
     (case (if isNullish x then Inr [] else to_string num x) of
        Inl e \<Rightarrow> Inl e
      | Inr s \<Rightarrow>
          if xs = [] then Inr s
          else (case join_values num xs of
                  Inl e \<Rightarrow> Inl e
                | Inr r \<Rightarrow> Inr (s @ '','' @ r)))"

definition error_string :: "js_error \<Rightarrow> string" where
  \<comment> \<open>\<open>`${error}`\<close> of a thrown error: its name, a colon and its message.\<close>
  "error_string e =
     (case e of
        Error m \<Rightarrow> ''Error: '' @ m
      | TypeError m \<Rightarrow> ''TypeError: '' @ m
      | SyntaxError m \<Rightarrow> ''SyntaxError: '' @ m)"

subsection \<open>The outside world\<close>

text \<open>
  The request of \<open>createPR\<close>. The body is the template of \<open>buildPRDescription\<close> filled with
  the issue's URL, the description, the reasoning and the changed paths; its fixed text
  has a character outside the strings of the model and is not spelled out.
\<close>

record PullRequest =
  pr_head :: string
  pr_base :: string
  pr_title :: string
  pr_body_issue_url :: string
  pr_body_description :: string
  pr_body_reasoning :: string
  pr_body_paths :: "string list"

text \<open>
  What the agent does to the checkout and to the hosting service, in the order done.
  \<open>MkdirParent p\<close> is \<open>fs.mkdir(path.dirname(path.join(repoPath, p)), {recursive: true})\<close>,
  \<open>WriteFile p c\<close> is \<open>fs.writeFile(path.join(repoPath, p), c, 'utf-8')\<close>, and \<open>ExecSync\<close>
  runs a command line in \<open>repoPath\<close>.
\<close>

datatype effect =
    ExecSync string
  | MkdirParent string
  | WriteFile string string
  | CreatePR PullRequest

datatype content_block = TextBlock string | OtherBlock string

text \<open>
  The platform the agent runs on: the two library functions the model leaves open, the
  checkout as the context engine reads it, the reply of the language model to the prompt
  built from a context, and the outcome of each effect given the effects before it
  (\<open>Inl\<close> or \<open>Some\<close>: it throws).
\<close>

record Platform =
  parse_json :: "string \<Rightarrow> string + jsvalue"
  format_number :: "int \<Rightarrow> int \<Rightarrow> string"
  checkout :: fsnode
  messages_create :: "BugContext \<Rightarrow> js_error + content_block list"
  exec_sync :: "effect list \<Rightarrow> string \<Rightarrow> js_error + string"
  fs_mkdir :: "effect list \<Rightarrow> string \<Rightarrow> js_error option"
  fs_writeFile :: "effect list \<Rightarrow> string \<Rightarrow> string \<Rightarrow> js_error option"
  pulls_create :: "effect list \<Rightarrow> PullRequest \<Rightarrow> js_error + string \<times> nat"


subsection \<open>Engine operations with effects\<close>



definition git_add_command :: "string \<Rightarrow> string" where
  "git_add_command file = ''git add \"'' @ file @ ''\"''"

definition git_commit_command :: "string \<Rightarrow> string" where
  "git_commit_command msg = ''git commit -m \"'' @ msg @ ''\"''"

fun stage :: "Platform \<Rightarrow> effect list \<Rightarrow> jsvalue list \<Rightarrow> (js_error + unit) \<times> effect list" where
  \<comment> \<open>The loop of \<open>commit\<close> over \<open>files\<close>.\<close>
  "stage P tr [] = (Inr (), tr)"
| "stage P tr (file # files) =
     (case to_string (format_number P) file of
        Inl e \<Rightarrow> (Inl e, tr)
      | Inr f \<Rightarrow>
          (case exec_sync P tr (git_add_command f) of
             Inl e \<Rightarrow> (Inl e, tr @ [ExecSync (git_add_command f)])
           | Inr out \<Rightarrow> stage P (tr @ [ExecSync (git_add_command f)]) files))"

definition failed_to_commit :: "js_error \<Rightarrow> js_error" where
  "failed_to_commit e = Error (''Failed to commit: '' @ error_string e)"

definition commit :: "Platform \<Rightarrow> effect list \<Rightarrow> string \<Rightarrow> jsvalue list \<Rightarrow> (js_error + string) \<times> effect list" where
  "commit P tr msg files =
     (case stage P tr files of
        (Inl e, tr1) \<Rightarrow> (Inl (failed_to_commit e), tr1)
      | (Inr u, tr1) \<Rightarrow>
          (case exec_sync P tr1 (git_commit_command msg) of
             Inl e \<Rightarrow> (Inl (failed_to_commit e), tr1 @ [ExecSync (git_commit_command msg)])
           | Inr out \<Rightarrow>
               (let tr2 = tr1 @ [ExecSync (git_commit_command msg)]
                in (case exec_sync P tr2 ''git rev-parse HEAD'' of
                      Inl e \<Rightarrow> (Inl (failed_to_commit e), tr2 @ [ExecSync ''git rev-parse HEAD''])
                    | Inr out2 \<Rightarrow> (Inr (trim out2), tr2 @ [ExecSync ''git rev-parse HEAD''])))))"



subsection \<open>\<open>fixBug\<close>\<close>









subsection \<open>The effects planned for a list of changes\<close>












section \<open>Example inputs\<close>

text \<open>Examples: a payload whose description, team and environment all name a repository.\<close>

definition example_description :: string where
  "example_description = ''See https://github.com/acme/web.git for the code''"


definition example_data :: IssueData where
  "example_data =
     \<lparr>data_id = ''NAV-7'', data_title = ''Crash on start'',
      data_description = Some example_description,
      data_priority = Some 2, data_url = ''https://linear.app/acme/issue/NAV-7'',
      data_labels = Some [\<lparr>label_id = ''l1'', label_name = ''ai-fix''\<rparr>],
      data_team = Some \<lparr>team_id = ''t1'', team_name = ''NAV''\<rparr>\<rparr>"

definition example_payload :: LinearWebhookPayload where
  "example_payload = \<lparr>action = ''update'', payload_type = ''Issue'', payload_data = example_data\<rparr>"

definition example_mapping :: string where
  "example_mapping = ''API=acme/api,nav=acme/nav''"


definition example_env :: Env where
  "example_env =
     \<lparr>LINEAR_WEBHOOK_SECRET = Some ''s3cret'',
      REPO_MAPPING = Some example_mapping,
      GITHUB_REPOSITORY = Some ''acme/default''\<rparr>"

definition example_request :: "IssueData \<Rightarrow> Request" where
  \<comment> \<open>A POST of an issue update that carries no \<open>linear-signature\<close> header.\<close>
  "example_request d =
     \<lparr>req_method = ''POST'', linear_signature = None,
      req_body = Some \<lparr>raw_action = Some ''update'', raw_type = Some ''Issue'', raw_data = Some d\<rparr>\<rparr>"



text \<open>Checkouts and issues for the context engine. No git command succeeds in \<open>no_git\<close>.\<close>

definition no_git :: "string \<Rightarrow> string option" where
  "no_git command = None"



definition crash_issue :: LinearIssue where
  "crash_issue =
     \<lparr>issue_id = ''LIN-1'', title = ''Crash on start'', description = ''It crashes'',
      priority = 1, labels = [''ai-fix''], url = ''https://linear.app/acme/issue/LIN-1''\<rparr>"

definition big_file :: string where
  "big_file = replicate 280004 CHR ''a''"

definition two_files_checkout :: fsnode where
  \<comment> \<open>\<open>big.ts\<close> has 280004 characters, \<open>small.ts\<close> one.\<close>
  "two_files_checkout = Dir [(''big.ts'', File big_file), (''small.ts'', File ''x'')]"





definition error_issue :: LinearIssue where
  "error_issue =
     \<lparr>issue_id = ''LIN-3'', title = ''TypeError: x is undefined'', description = ''It crashes'',
      priority = 1, labels = [''ai-fix''], url = ''https://linear.app/acme/issue/LIN-3''\<rparr>"

definition error_text :: string where
  "error_text = ''TypeError: x is undefined''"

definition hidden_text :: string where
  "hidden_text = ''// TypeError: x is undefined''"

definition app_text :: string where
  "app_text = ''let y = 1'' @ [CHR 0x0A] @ ''  // TypeError: x is undefined''"

definition hidden_checkout :: fsnode where
  \<comment> \<open>Two files in the checkout directory hold the error text; one of them is hidden.\<close>
  "hidden_checkout = Dir [(''.eslintrc.js'', File hidden_text), (''app.ts'', File app_text)]"

definition app_hit :: SearchHit where
  "app_hit = \<lparr>hit_file = ''app.ts'', hit_line = 2, hit_content = hidden_text\<rparr>"

definition hidden_context :: BugContext where
  "hidden_context =
     \<lparr>staticContext = ''No project context file found.'', issueDetails = error_issue,
      relevantFiles = [], recentCommits = [], searchResults = [app_hit],
      estimatedTokens = 19\<rparr>"

definition locked_checkout :: fsnode where
  \<comment> \<open>The directory \<open>src\<close> of the checkout cannot be listed.\<close>
  "locked_checkout =
     Dir [(''README.md'', File ''Notes''),
          (''src'', Unlistable ''EACCES: permission denied, scandir'')]"

text \<open>Replies of the model.\<close>

definition no_fix_json :: string where
  "no_fix_json = ''{\"reasoning\":\"The cause is unclear\",\"description\":\"No fix\",\"changes\":[]}''"

definition no_fix_reply :: string where
  "no_fix_reply = ''I looked at it. '' @ no_fix_json @ '' Sorry.''"

definition no_fix_value :: jsvalue where
  "no_fix_value =
     JObject [(''reasoning'', JString ''The cause is unclear''),
              (''description'', JString ''No fix''), (''changes'', JArray [])]"

definition not_json_reply :: string where
  "not_json_reply = ''I cannot {fix} this''"

definition loose_json :: string where
  "loose_json =
     ''{\"reasoning\":\"Typo\",\"description\":\"Fix typo\",\"changes\":[1,{\"path\":\"src/a.ts\"}]}''"

definition loose_reply :: string where
  "loose_reply = ''Here is the fix: '' @ loose_json @ '' Done.''"

definition loose_value :: jsvalue where
  "loose_value =
     JObject [(''reasoning'', JString ''Typo''), (''description'', JString ''Fix typo''),
              (''changes'', JArray [JNumber 1 0, JObject [(''path'', JString ''src/a.ts'')]])]"









text \<open>A git log of one line of 400000 characters, and a checkout with one nested file.\<close>

definition long_line :: string where
  "long_line = replicate 400000 CHR ''a''"

definition long_log :: "string \<Rightarrow> string option" where
  "long_log command = Some long_line"

definition long_log_context :: BugContext where
  "long_log_context =
     \<lparr>staticContext = ''No project context file found.'', issueDetails = crash_issue,
      relevantFiles = [],
      recentCommits = [\<lparr>sha = long_line, commit_message = None, author = None, date = None\<rparr>],
      searchResults = [], estimatedTokens = 100003\<rparr>"

definition nested_checkout :: fsnode where
  "nested_checkout = Dir [(''src'', Dir [(''app.ts'', File app_text)])]"


section \<open>Properties of the webhook entry point\<close>

lemma toLowerCase_AI_Fix: "toLowerCase ''AI-Fix'' = ''ai-fix''"
  by code_simp

lemma toLowerCase_AI_FIX: "toLowerCase ''AI-FIX'' = ''ai-fix''"
  by code_simp

text \<open>
  C9. Trigger-label matching is case-insensitive: a payload is processed if and only if its
  action is \<open>create\<close> or \<open>update\<close> and the lower-cased name of one of its labels is
  \<open>ai-fix\<close>; a missing \<open>labels\<close> field counts as no label.
\<close>

theorem shouldProcessIssue_iff:
  "shouldProcessIssue payload \<longleftrightarrow>
     (action payload = ''create'' \<or> action payload = ''update'') \<and>
     (\<exists>ls label. data_labels (payload_data payload) = Some ls \<and> label \<in> set ls \<and>
        toLowerCase (label_name label) = ''ai-fix'')"
proof (cases "data_labels (payload_data payload)")
  case None
  then show ?thesis by (simp add: shouldProcessIssue_def)
next
  case (Some ls)
  then show ?thesis by (auto simp: shouldProcessIssue_def list_ex_iff)
qed

theorem shouldProcessIssue_iff_witness:
  "shouldProcessIssue
     \<lparr>action = ''update'', payload_type = ''Issue'',
      payload_data = \<lparr>data_id = ''LIN-1'', data_title = ''Crash'', data_description = None,
        data_priority = None, data_url = ''https://linear.app/i/LIN-1'',
        data_labels = Some [\<lparr>label_id = ''l1'', label_name = ''AI-Fix''\<rparr>],
        data_team = None\<rparr>\<rparr> \<and>
   shouldProcessIssue
     \<lparr>action = ''create'', payload_type = ''Issue'',
      payload_data = \<lparr>data_id = ''LIN-2'', data_title = ''Crash'', data_description = None,
        data_priority = None, data_url = ''https://linear.app/i/LIN-2'',
        data_labels = Some [\<lparr>label_id = ''l0'', label_name = ''bug''\<rparr>,
                            \<lparr>label_id = ''l1'', label_name = ''AI-FIX''\<rparr>],
        data_team = None\<rparr>\<rparr> \<and>
   \<not> shouldProcessIssue
     \<lparr>action = ''remove'', payload_type = ''Issue'',
      payload_data = \<lparr>data_id = ''LIN-3'', data_title = ''Crash'', data_description = None,
        data_priority = None, data_url = ''https://linear.app/i/LIN-3'',
        data_labels = Some [\<lparr>label_id = ''l1'', label_name = ''ai-fix''\<rparr>],
        data_team = None\<rparr>\<rparr>"
  unfolding shouldProcessIssue_iff
  by (simp add: toLowerCase_AI_Fix toLowerCase_AI_FIX ex_disj_distrib conj_disj_distribR)

subsection \<open>Repository resolution and the early responses\<close>


lemma github_url_match_at:
  "match_github_at s = Some m \<Longrightarrow> github_url_match s = Some m"
  by (cases s) (simp_all add: match_github_at_def strip_prefix_def)

lemma github_url_match_append:
  "github_url_match s \<noteq> None \<Longrightarrow> github_url_match (pre @ s) \<noteq> None"
  by (induction pre) (auto split: option.splits)

lemma match_github_at_url:
  assumes "own \<noteq> []" "CHR ''/'' \<notin> set own"
    and "rp \<noteq> []" "\<forall>c \<in> set rp. c \<noteq> CHR ''/'' \<and> \<not> isWhiteSpace c"
    and "rest = [] \<or> hd rest = CHR ''/'' \<or> isWhiteSpace (hd rest)"
  shows "match_github_at (''github.com/'' @ own @ ''/'' @ rp @ rest) = Some (own, rp)"
proof -
  have own1: "takeWhile (\<lambda>c. c \<noteq> CHR ''/'') (own @ CHR ''/'' # rp @ rest) = own"
    using assms(2) by (induction own) auto
  have own2: "dropWhile (\<lambda>c. c \<noteq> CHR ''/'') (own @ CHR ''/'' # rp @ rest) = CHR ''/'' # rp @ rest"
    using assms(2) by (induction own) auto
  have rest0: "takeWhile (\<lambda>c. c \<noteq> CHR ''/'' \<and> \<not> isWhiteSpace c) rest = []"
    using assms(5) by (cases rest) auto
  have rp1: "takeWhile (\<lambda>c. c \<noteq> CHR ''/'' \<and> \<not> isWhiteSpace c) (rp @ rest) = rp"
    using assms(4) rest0 by (induction rp) auto
  have pre: "strip_prefix ''github.com/'' (''github.com/'' @ own @ ''/'' @ rp @ rest)
      = Some (own @ CHR ''/'' # rp @ rest)"
    by (simp add: strip_prefix_def)
  show ?thesis
    unfolding match_github_at_def pre
    using assms(1,3) by (simp add: own1 own2 rp1)
qed

text \<open>
  A description that holds \<open>github.com/<owner>/<repo>\<close>, the repository name ending at a
  slash, at white space or at the end of the text, is matched by the expression.
\<close>

lemma github_url_match_contains:
  assumes "own \<noteq> []" "CHR ''/'' \<notin> set own"
    and "rp \<noteq> []" "\<forall>c \<in> set rp. c \<noteq> CHR ''/'' \<and> \<not> isWhiteSpace c"
    and "rest = [] \<or> hd rest = CHR ''/'' \<or> isWhiteSpace (hd rest)"
  shows "github_url_match (pre @ ''github.com/'' @ own @ ''/'' @ rp @ rest) \<noteq> None"
proof -
  have "github_url_match (''github.com/'' @ own @ ''/'' @ rp @ rest) = Some (own, rp)"
    by (rule github_url_match_at [OF match_github_at_url [OF assms]])
  then show ?thesis
    using github_url_match_append [of "''github.com/'' @ own @ ''/'' @ rp @ rest" pre] by simp
qed

lemma example_url_match:
  "github_url_match example_description = Some (''acme'', ''web.git'')"
  by code_simp



lemma example_strip_dot_git: "strip_dot_git ''web.git'' = ''web''"
  by code_simp





text \<open>
  C5 (the source accepts what the claim rejects). With a shared secret configured, a POST
  that carries no signature at all passes \<open>verifyLinearSignature\<close>, which returns \<open>true\<close> on
  both of its paths, and goes on to the fix pipeline; no request is answered with 401.
\<close>

theorem handler_unsigned_request_accepted:
  "LINEAR_WEBHOOK_SECRET example_env = Some ''s3cret'' \<and>
   linear_signature (example_request example_data) = None \<and>
   verifyLinearSignature example_env (req_body (example_request example_data)) None \<and>
   handler example_env (example_request example_data)
     = RunPipeline \<lparr>owner = ''acme'', repo = Some ''web''\<rparr> (issue_of_payload example_payload)"
proof -
  have d1: "description_of example_payload = example_description"
    by (simp add: description_of_def example_payload_def example_data_def)
  have x: "extractRepoInfo example_env example_payload
      = Inr (Some \<lparr>owner = ''acme'', repo = Some ''web''\<rparr>)"
    using d1 by (simp add: extractRepoInfo_def description_of_def example_url_match
        example_strip_dot_git)
  have p: "parseLinearWebhook (req_body (example_request example_data)) = Inr example_payload"
    by (simp add: parseLinearWebhook_def example_request_def example_payload_def)
  have s: "shouldProcessIssue example_payload"
    by (simp add: shouldProcessIssue_def example_payload_def example_data_def) code_simp
  show ?thesis
    using x p s
    by (simp add: handler_def verifyLinearSignature_def example_env_def example_request_def)
qed

lemma handler_never_401: "handler env req \<noteq> Respond 401 body"
  by (auto simp: handler_def verifyLinearSignature_def split: sum.splits option.splits)

section \<open>Properties of the context engine\<close>

subsection \<open>The file loop\<close>



subsection \<open>The examples, evaluated\<close>



lemma limits: "files_limit = 70000" "search_limit = 80000" "commits_limit = 85000"
  by (simp_all add: files_limit_def search_limit_def commits_limit_def TOKEN_BUDGET_def)

lemma signals_crash_issue:
  "extractSignalsFromIssue crash_issue = \<lparr>signal_files = [], signal_errors = []\<rparr>"
  by code_simp



lemma load_static_two_files:
  "load_static two_files_checkout = (''No project context file found.'', 0)"
  by (simp add: load_static_def readFile_def two_files_checkout_def)

lemma no_commits: "getRecentCommits no_git None 5 = []"
  by (simp add: getRecentCommits_def no_git_def)

lemma stringify_no_commits: "estimateTokens (stringify_commits []) = 1"
  by (simp add: stringify_commits_def json_array_def estimateTokens_def)


lemma commits_step_no_git:
  "commits_step no_git t = (if t < commits_limit then ([], t + 1) else ([], t))"
  by (simp add: commits_step_def no_commits stringify_no_commits)






subsection \<open>The parts of a gathered context\<close>

lemma gatherContextForBug_parts:
  assumes "gatherContextForBug root execSync issue = Inr ctx"
  shows "staticContext ctx = fst (load_static root)"
    and "relevantFiles ctx = fst (add_files root (signal_files (extractSignalsFromIssue issue))
            ([], tokens_after_static root))"
    and "\<exists>t3. search_step root (extractSignalsFromIssue issue) (tokens_after_files root issue)
            = Inr (searchResults ctx, t3) \<and>
          commits_step execSync t3 = (recentCommits ctx, estimatedTokens ctx)"
  using assms
  by (auto simp: gatherContextForBug_def tokens_after_files_def tokens_after_static_def Let_def
      split: prod.splits sum.splits)





subsection \<open>The token budget\<close>




lemma split_on_absent: "sep \<notin> set xs \<Longrightarrow> split_on sep xs = [xs]"
  by (induction xs) auto

lemma json_string_plain:
  "\<forall>c \<in> set xs. json_escape c = [c] \<Longrightarrow> length (json_string xs) = length xs + 2"
  by (induction xs) (simp_all add: json_string_def)

lemma json_escape_a: "json_escape CHR ''a'' = ''a''"
  by code_simp

lemma long_line_facts:
  "split_on CHR 0x0A long_line = [long_line]" "split_on CHR ''|'' long_line = [long_line]"
  "long_line \<noteq> []" "length (json_string long_line) = 400002"
  by (simp_all add: long_line_def split_on_absent json_string_plain json_escape_a)

lemma long_log_commits:
  "getRecentCommits long_log None 5
     = [\<lparr>sha = long_line, commit_message = None, author = None, date = None\<rparr>]"
  by (simp add: getRecentCommits_def long_log_def long_line_facts parse_commit_def first_def
      nth_opt_def)

lemma long_log_tokens:
  "estimateTokens (stringify_commits
     [\<lparr>sha = long_line, commit_message = None, author = None, date = None\<rparr>]) = 100003"
proof -
  have k: "json_string ''sha'' = [CHR 0x22] @ ''sha'' @ [CHR 0x22]"
    by code_simp
  show ?thesis
    by (simp add: stringify_commits_def json_array_def json_object_def estimateTokens_def
        long_line_facts k)
qed

text \<open>
  The gates of the search and commit steps look at the total before the step only: with static
  notes missing and no file named, a git log of one long line alone brings the estimate
  above the budget.
\<close>

lemma gather_long_log:
  "gatherContextForBug two_files_checkout long_log crash_issue = Inr long_log_context"
  by (simp add: gatherContextForBug_def load_static_two_files signals_crash_issue search_step_def
      commits_step_def long_log_commits long_log_tokens limits long_log_context_def)

subsection \<open>The order and the end of file inclusion\<close>




subsection \<open>The code search\<close>

lemma set_hits_in:
  "set (hits_in file c pat) =
     {\<lparr>hit_file = file, hit_line = i + 1, hit_content = trim (split_on CHR 0x0A c ! i)\<rparr> | i.
        i < length (split_on CHR 0x0A c) \<and> sublist pat (split_on CHR 0x0A c ! i)}"
proof -
  have e: "zip [0 ..< length xs] xs = enumerate 0 xs" for xs :: "string list"
    by (simp add: enumerate_eq_zip)
  have z: "set (zip [0 ..< length xs] xs) = {(i, xs ! i) | i. i < length xs}" for xs :: "string list"
    unfolding e by (auto simp: in_set_enumerate_eq)
  show ?thesis
    unfolding hits_in_def Let_def set_map set_filter z by auto
qed

lemma walk_names:
  "walk n = Inr fs \<Longrightarrow> \<forall>name \<in> set fs. \<not> skipped name"
  "walk_entries es = Inr fs' \<Longrightarrow> \<forall>name \<in> set fs'. \<not> skipped name"
proof (induction n and es arbitrary: fs and fs' rule: walk_walk_entries.induct)
  case (6 name n es)
  show ?case
  proof (cases "skipped name")
    case True
    with "6.IH"(1) "6.prems" show ?thesis by simp
  next
    case False
    note visible = this
    show ?thesis
    proof (cases "isDirectory n")
      case True
      with "6.prems" visible obtain a b where ab: "walk n = Inr a" "walk_entries es = Inr b" "fs' = a @ b"
        by (auto split: sum.splits)
      from "6.IH"(2) [OF visible True ab(1)] "6.IH"(3) [OF visible True _ ab(2)] ab 
      show ?thesis by auto
    next
      case False
      with "6.prems" visible obtain b where b: "walk_entries es = Inr b" "fs' = name # b"
        by (auto split: sum.splits)
      from "6.IH"(4) [OF visible False b(1)] b(2) visible
      show ?thesis by auto
    qed
  qed
qed simp_all

lemma search_file_hit:
  assumes "h \<in> set (search_file root pat (Some exts) name)"
  shows "hit_file h = name \<and> (\<exists>ext \<in> set exts. suffix ext name) \<and>
     (\<exists>c. readFile root name = Some c \<and> 1 \<le> hit_line h \<and>
        hit_line h \<le> length (split_on CHR 0x0A c) \<and>
        sublist pat (split_on CHR 0x0A c ! (hit_line h - 1)) \<and>
        hit_content h = trim (split_on CHR 0x0A c ! (hit_line h - 1)))"
proof -
  from assms have ext: "\<exists>ext \<in> set exts. suffix ext name"
    by (auto simp: search_file_def list_ex_iff split: if_splits)
  from assms obtain c where c: "readFile root name = Some c" "h \<in> set (hits_in name c pat)"
    by (cases "readFile root name") (auto simp: search_file_def split: if_splits)
  from c(2) obtain i where i: "i < length (split_on CHR 0x0A c)"
      "sublist pat (split_on CHR 0x0A c ! i)"
      "h = \<lparr>hit_file = name, hit_line = i + 1, hit_content = trim (split_on CHR 0x0A c ! i)\<rparr>"
    unfolding set_hits_in by blast
  show ?thesis using ext c(1) i by auto
qed

lemma search_file_complete:
  assumes "\<exists>ext \<in> set exts. suffix ext name" "readFile root name = Some c"
    "i < length (split_on CHR 0x0A c)" "sublist pat (split_on CHR 0x0A c ! i)"
  shows "\<lparr>hit_file = name, hit_line = i + 1, hit_content = trim (split_on CHR 0x0A c ! i)\<rparr>
           \<in> set (search_file root pat (Some exts) name)"
  using assms by (auto simp: search_file_def list_ex_iff set_hits_in)

lemma walk_entries_top_level:
  "walk_entries es = Inr fs \<Longrightarrow> (name, n) \<in> set es \<Longrightarrow> \<not> isDirectory n \<Longrightarrow>
     \<not> skipped name \<Longrightarrow> name \<in> set fs"
proof (induction es arbitrary: fs)
  case Nil
  then show ?case by simp
next
  case (Cons a es)
  obtain nm nd where a: "a = (nm, nd)" by (cases a)
  show ?case
  proof (cases "(name, n) = a")
    case True
    with Cons.prems a show ?thesis by (auto split: sum.splits)
  next
    case False
    with Cons.prems have m: "(name, n) \<in> set es" by simp
    have "\<exists>r. walk_entries es = Inr r \<and> set r \<subseteq> set fs"
      using Cons.prems(1) a by (auto split: if_splits sum.splits)
    then obtain r where r: "walk_entries es = Inr r" "set r \<subseteq> set fs"
      by blast
    from Cons.IH [OF r(1) m Cons.prems(3,4)] r(2) show ?thesis by blast
  qed
qed

lemma search_step_skip:
  "signal_errors signals = [] \<or> search_limit \<le> t \<Longrightarrow> search_step root signals t = Inr ([], t)"
  by (auto simp: search_step_def split: list.splits)

lemma search_step_run:
  "signal_errors signals = e # es \<Longrightarrow> t < search_limit \<Longrightarrow>
     search_step root signals t =
       (case searchCode root e (Some search_extensions) of
          Inl err \<Rightarrow> Inl err
        | Inr hits \<Rightarrow> Inr (take 20 hits, t + estimateTokens (stringify_hits (take 20 hits))))"
  by (simp add: search_step_def)

lemma estimateTokens_stringify_hits: "1 \<le> estimateTokens (stringify_hits hs)"
  by (simp add: estimateTokens_def stringify_hits_def json_array_def)


lemma signals_error_issue:
  "extractSignalsFromIssue error_issue = \<lparr>signal_files = [], signal_errors = [error_text]\<rparr>"
  by code_simp

lemma listFiles_hidden: "listFiles hidden_checkout = Inr [''app.ts'']"
  by code_simp

lemma listFiles_locked:
  "listFiles locked_checkout = Inl (Error ''EACCES: permission denied, scandir'')"
  by code_simp

lemma searchCode_hidden:
  "searchCode hidden_checkout error_text (Some search_extensions) = Inr [app_hit]"
  by code_simp

lemma stringify_app_hit: "estimateTokens (stringify_hits [app_hit]) = 18"
  by code_simp

lemma load_static_hidden:
  "load_static hidden_checkout = (''No project context file found.'', 0)"
  by code_simp

lemma load_static_locked:
  "load_static locked_checkout = (''No project context file found.'', 0)"
  by code_simp

lemma gather_hidden:
  "gatherContextForBug hidden_checkout no_git error_issue = Inr hidden_context"
  by (simp add: gatherContextForBug_def load_static_hidden signals_error_issue search_step_def
      searchCode_hidden stringify_app_hit commits_step_no_git limits hidden_context_def)

lemma tokens_after_files_hidden: "tokens_after_files hidden_checkout error_issue = 0"
  by (simp add: tokens_after_files_def tokens_after_static_def load_static_hidden
      signals_error_issue)

text \<open>
  C7 (as stated, refuted). The search does not cover the whole checkout: the file
  \<open>.eslintrc.js\<close> in the checkout directory has a searched extension and holds the first
  error string of the issue, and the search, which ran, reports the line of \<open>app.ts\<close>
  only. The directory walk passes over every entry whose name starts with a dot.
\<close>

theorem hidden_file_not_searched:
  "signal_errors (extractSignalsFromIssue error_issue) = [error_text] \<and>
   tokens_after_files hidden_checkout error_issue < search_limit \<and>
   readFile hidden_checkout ''.eslintrc.js'' = Some hidden_text \<and>
   suffix ''.js'' ''.eslintrc.js'' \<and> sublist error_text hidden_text \<and>
   gatherContextForBug hidden_checkout no_git error_issue = Inr hidden_context \<and>
   map hit_file (searchResults hidden_context) = [''app.ts'']"
proof -
  have r: "readFile hidden_checkout ''.eslintrc.js'' = Some hidden_text"
    by (simp add: readFile_def hidden_checkout_def)
  have x: "suffix ''.js'' ''.eslintrc.js''" "sublist error_text hidden_text"
    by code_simp+
  show ?thesis
    using gather_hidden r x
    by (simp add: signals_error_issue tokens_after_files_hidden limits hidden_context_def
        app_hit_def)
qed

text \<open>
  C7 (amended). The search step runs exactly when an error string was extracted and the
  running total is under 80 percent of the budget: otherwise the bundle has no hit and the
  total is unchanged, and when it runs at least one token is added. When it runs, the files
  searched are those of the engine's directory listing, which has no entry whose name
  starts with a dot or is \<open>node_modules\<close> and has every other file that lies directly in
  the checkout directory. The hits are, in order, at most the first 20 of: the lines, with
  their numbers and trimmed, of the listed files with one of the seven extensions that
  contain the first error string as a substring, case left as it is.
\<close>

theorem searchResults_spec:
  assumes "gatherContextForBug root execSync issue = Inr ctx"
  shows "length (searchResults ctx) \<le> 20 \<and>
    (signal_errors (extractSignalsFromIssue issue) = [] \<or>
     search_limit \<le> tokens_after_files root issue \<longrightarrow>
       searchResults ctx = [] \<and>
       search_step root (extractSignalsFromIssue issue) (tokens_after_files root issue)
         = Inr ([], tokens_after_files root issue)) \<and>
    (\<forall>e es. signal_errors (extractSignalsFromIssue issue) = e # es \<and>
       tokens_after_files root issue < search_limit \<longrightarrow>
       (\<exists>files. listFiles root = Inr files \<and>
          (\<forall>name \<in> set files. \<not> skipped name) \<and>
          (\<forall>entries name c. root = Dir entries \<and> (name, File c) \<in> set entries \<and>
             \<not> skipped name \<longrightarrow> name \<in> set files) \<and>
          searchResults ctx
            = take 20 (concat (map (search_file root e (Some search_extensions)) files)) \<and>
          search_step root (extractSignalsFromIssue issue) (tokens_after_files root issue)
            = Inr (searchResults ctx,
                   tokens_after_files root issue
                     + estimateTokens (stringify_hits (searchResults ctx))) \<and>
          1 \<le> estimateTokens (stringify_hits (searchResults ctx)) \<and>
          (\<forall>h \<in> set (searchResults ctx).
             hit_file h \<in> set files \<and>
             (\<exists>ext \<in> set search_extensions. suffix ext (hit_file h)) \<and>
             (\<exists>c. readFile root (hit_file h) = Some c \<and> 1 \<le> hit_line h \<and>
                hit_line h \<le> length (split_on CHR 0x0A c) \<and>
                sublist e (split_on CHR 0x0A c ! (hit_line h - 1)) \<and>
                hit_content h = trim (split_on CHR 0x0A c ! (hit_line h - 1)))) \<and>
          (\<forall>name \<in> set files. \<forall>c i.
             (\<exists>ext \<in> set search_extensions. suffix ext name) \<and>
             readFile root name = Some c \<and> i < length (split_on CHR 0x0A c) \<and>
             sublist e (split_on CHR 0x0A c ! i) \<longrightarrow>
             \<lparr>hit_file = name, hit_line = i + 1, hit_content = trim (split_on CHR 0x0A c ! i)\<rparr>
               \<in> set (concat (map (search_file root e (Some search_extensions)) files)))))"
proof -
  let ?sig = "extractSignalsFromIssue issue"
  let ?t = "tokens_after_files root issue"
  from gatherContextForBug_parts(3) [OF assms] obtain t3 where
    s: "search_step root ?sig ?t = Inr (searchResults ctx, t3)"
    by blast
  have "\<exists>hits. searchResults ctx = take 20 hits"
    using s by (auto simp: search_step_def split: list.splits if_splits sum.splits
        intro: exI [of _ "[]"] sym)
  then have len: "length (searchResults ctx) \<le> 20"
    by auto
  have skip: "signal_errors ?sig = [] \<or> search_limit \<le> ?t \<longrightarrow>
       searchResults ctx = [] \<and> search_step root ?sig ?t = Inr ([], ?t)"
    using s search_step_skip [of ?sig ?t root] by auto
  have run: "\<exists>files. listFiles root = Inr files \<and>
          (\<forall>name \<in> set files. \<not> skipped name) \<and>
          (\<forall>entries name c. root = Dir entries \<and> (name, File c) \<in> set entries \<and>
             \<not> skipped name \<longrightarrow> name \<in> set files) \<and>
          searchResults ctx
            = take 20 (concat (map (search_file root e (Some search_extensions)) files)) \<and>
          search_step root ?sig ?t
            = Inr (searchResults ctx, ?t + estimateTokens (stringify_hits (searchResults ctx))) \<and>
          1 \<le> estimateTokens (stringify_hits (searchResults ctx)) \<and>
          (\<forall>h \<in> set (searchResults ctx).
             hit_file h \<in> set files \<and>
             (\<exists>ext \<in> set search_extensions. suffix ext (hit_file h)) \<and>
             (\<exists>c. readFile root (hit_file h) = Some c \<and> 1 \<le> hit_line h \<and>
                hit_line h \<le> length (split_on CHR 0x0A c) \<and>
                sublist e (split_on CHR 0x0A c ! (hit_line h - 1)) \<and>
                hit_content h = trim (split_on CHR 0x0A c ! (hit_line h - 1)))) \<and>
          (\<forall>name \<in> set files. \<forall>c i.
             (\<exists>ext \<in> set search_extensions. suffix ext name) \<and>
             readFile root name = Some c \<and> i < length (split_on CHR 0x0A c) \<and>
             sublist e (split_on CHR 0x0A c ! i) \<longrightarrow>
             \<lparr>hit_file = name, hit_line = i + 1, hit_content = trim (split_on CHR 0x0A c ! i)\<rparr>
               \<in> set (concat (map (search_file root e (Some search_extensions)) files)))"
    if e: "signal_errors ?sig = e # es" and t: "?t < search_limit" for e es
  proof -
    let ?all = "\<lambda>files. concat (map (search_file root e (Some search_extensions)) files)"
    from s search_step_run [OF e t, of root]
    obtain hits where h: "searchCode root e (Some search_extensions) = Inr hits"
      "searchResults ctx = take 20 hits"
      "t3 = ?t + estimateTokens (stringify_hits (take 20 hits))"
      by (cases "searchCode root e (Some search_extensions)") auto
    from h(1) obtain files where f: "listFiles root = Inr files" "hits = ?all files"
      by (cases "listFiles root") (auto simp: searchCode_def)
    have names: "\<forall>name \<in> set files. \<not> skipped name"
      using walk_names(1) [of root files] f(1) by (simp add: listFiles_def)
    have top: "\<forall>entries name c. root = Dir entries \<and> (name, File c) \<in> set entries \<and>
             \<not> skipped name \<longrightarrow> name \<in> set files"
    proof (intro allI impI)
      fix entries name c
      assume a: "root = Dir entries \<and> (name, File c) \<in> set entries \<and> \<not> skipped name"
      then have "walk_entries entries = Inr files"
        using f(1) by (simp add: listFiles_def)
      from walk_entries_top_level [OF this, of name "File c"] a show "name \<in> set files"
        by simp
    qed
    have sound: "hit_file h \<in> set files \<and>
             (\<exists>ext \<in> set search_extensions. suffix ext (hit_file h)) \<and>
             (\<exists>c. readFile root (hit_file h) = Some c \<and> 1 \<le> hit_line h \<and>
                hit_line h \<le> length (split_on CHR 0x0A c) \<and>
                sublist e (split_on CHR 0x0A c ! (hit_line h - 1)) \<and>
                hit_content h = trim (split_on CHR 0x0A c ! (hit_line h - 1)))"
      if "h \<in> set (searchResults ctx)" for h
    proof -
      from that h(2) have "h \<in> set hits" by (auto dest: in_set_takeD)
      with f(2) obtain name where n: "name \<in> set files"
        "h \<in> set (search_file root e (Some search_extensions) name)"
        by auto
      from search_file_hit [OF n(2)] n(1) show ?thesis by auto
    qed
    have complete: "\<forall>name \<in> set files. \<forall>c i.
             (\<exists>ext \<in> set search_extensions. suffix ext name) \<and>
             readFile root name = Some c \<and> i < length (split_on CHR 0x0A c) \<and>
             sublist e (split_on CHR 0x0A c ! i) \<longrightarrow>
             \<lparr>hit_file = name, hit_line = i + 1, hit_content = trim (split_on CHR 0x0A c ! i)\<rparr>
               \<in> set (?all files)"
    proof (intro ballI allI impI)
      fix name c i
      assume n: "name \<in> set files"
        and a: "(\<exists>ext \<in> set search_extensions. suffix ext name) \<and>
             readFile root name = Some c \<and> i < length (split_on CHR 0x0A c) \<and>
             sublist e (split_on CHR 0x0A c ! i)"
      from a have "\<lparr>hit_file = name, hit_line = i + 1, hit_content = trim (split_on CHR 0x0A c ! i)\<rparr>
          \<in> set (search_file root e (Some search_extensions) name)"
        by (intro search_file_complete) simp_all
      with n show "\<lparr>hit_file = name, hit_line = i + 1, hit_content = trim (split_on CHR 0x0A c ! i)\<rparr>
          \<in> set (?all files)"
        by auto
    qed
    have step: "search_step root ?sig ?t
            = Inr (searchResults ctx, ?t + estimateTokens (stringify_hits (searchResults ctx)))"
      using s h(2,3) by simp
    show ?thesis
      apply (rule exI [of _ files])
      using f(1) names top h(2) f(2) step estimateTokens_stringify_hits sound complete
      by blast
  qed
  show ?thesis
    using len skip run by blast
qed

theorem searchResults_spec_witness:
  "gatherContextForBug hidden_checkout no_git error_issue = Inr hidden_context \<and>
   signal_errors (extractSignalsFromIssue error_issue) = [error_text] \<and>
   tokens_after_files hidden_checkout error_issue < search_limit \<and>
   length (searchResults hidden_context) \<le> 20 \<and>
   listFiles hidden_checkout = Inr [''app.ts''] \<and>
   searchResults hidden_context
     = take 20 (concat (map (search_file hidden_checkout error_text (Some search_extensions))
         [''app.ts'']))"
proof -
  have e: "signal_errors (extractSignalsFromIssue error_issue) = [error_text]"
    by (simp add: signals_error_issue)
  have t: "tokens_after_files hidden_checkout error_issue < search_limit"
    by (simp add: tokens_after_files_hidden limits)
  from searchResults_spec [OF gather_hidden] e t
  obtain files where f: "listFiles hidden_checkout = Inr files"
    "searchResults hidden_context
       = take 20 (concat (map (search_file hidden_checkout error_text (Some search_extensions))
           files))"
    and l: "length (searchResults hidden_context) \<le> 20"
    by blast
  from f(1) have "files = [''app.ts'']" by (simp add: listFiles_hidden)
  with f l e t gather_hidden show ?thesis by simp
qed

text \<open>
  A file in a subdirectory is listed by its bare name and then read relative to the checkout
  directory, where it is not found: the search reports nothing for \<open>src/app.ts\<close>, which
  holds the error text.
\<close>

lemma nested_file_listed_by_bare_name:
  "listFiles nested_checkout = Inr [''app.ts''] \<and>
   readFile nested_checkout ''app.ts'' = None \<and>
   readFile nested_checkout ''src/app.ts'' = Some app_text \<and>
   searchCode nested_checkout error_text (Some search_extensions) = Inr []"
  by code_simp

subsection \<open>Failures while gathering\<close>

lemma gatherContextForBug_raises_iff:
  "(gatherContextForBug root execSync issue = Inl err) \<longleftrightarrow>
     (signal_errors (extractSignalsFromIssue issue) \<noteq> [] \<and>
      tokens_after_files root issue < search_limit \<and> listFiles root = Inl err)"
  by (auto simp: gatherContextForBug_def tokens_after_files_def tokens_after_static_def
      search_step_def searchCode_def Let_def
      split: prod.splits sum.splits list.splits)

lemma gather_locked:
  "gatherContextForBug locked_checkout no_git error_issue
     = Inl (Error ''EACCES: permission denied, scandir'')"
  by (simp add: gatherContextForBug_def load_static_locked signals_error_issue search_step_def
      searchCode_def listFiles_locked limits)

text \<open>
  C6 (the source raises where the claim says it cannot). \<open>searchCode\<close> awaits \<open>listFiles\<close>
  outside its \<open>try\<close>, and the call of \<open>searchCode\<close> is in no \<open>try\<close> either: when the issue
  has an error string and a directory of the checkout cannot be listed, the whole operation
  is rejected with the error of \<open>readdir\<close>. By \<open>gatherContextForBug_raises_iff\<close> this is
  the only way it raises.
\<close>

theorem gatherContextForBug_raises_on_unlistable_directory:
  "signal_errors (extractSignalsFromIssue error_issue) = [error_text] \<and>
   listFiles locked_checkout = Inl (Error ''EACCES: permission denied, scandir'') \<and>
   gatherContextForBug locked_checkout no_git error_issue
     = Inl (Error ''EACCES: permission denied, scandir'')"
  using gather_locked listFiles_locked by (simp add: signals_error_issue)

section \<open>Properties of the fix generator\<close>

lemma cannot_read_message: "message (cannot_read v key) \<noteq> could_not_fix"
  by (simp add: cannot_read_def could_not_fix_def)

lemma no_fix_match: "json_match no_fix_reply = Some no_fix_json"
  by code_simp

lemma no_fix_parse: "JSON_parse_ref no_fix_json = Inr no_fix_value"
  by code_simp

lemma not_json_match: "json_match not_json_reply = Some ''{fix}''"
  by code_simp

lemma not_json_parse: "JSON_parse_ref ''{fix}'' = Inl ''Unexpected token in JSON''"
  by code_simp

lemma loose_match: "json_match loose_reply = Some loose_json"
  by code_simp

lemma loose_parse: "JSON_parse_ref loose_json = Inr loose_value"
  by code_simp


text \<open>
  C4. The parser tells the two failures apart. A reply whose extracted JSON parses, has
  truthy \<open>reasoning\<close> and \<open>description\<close> and an empty \<open>changes\<close> array gives a failed
  result with the reply's own description and reasoning and the error
  \<open>AI could not generate a confident fix\<close>. A reply with no braces, one whose extracted
  text \<open>JSON.parse\<close> rejects, and one that fails the validation give a failed result with
  the description \<open>Failed to parse AI response\<close>, the first 500 characters of the raw reply
  as reasoning, and another error (the one assumption on the engine: the message of its
  \<open>SyntaxError\<close> is not that sentence).
\<close>

theorem parseClaudeResponse_failure_modes:
  "(json_match text = Some m \<and> JSON_parse m = Inr parsed \<and> \<not> isNullish parsed \<and>
    truthy (get_prop parsed ''reasoning'') \<and> truthy (get_prop parsed ''description'') \<and>
    get_prop parsed ''changes'' = JArray [] \<longrightarrow>
      parseClaudeResponse JSON_parse text =
        \<lparr>fix_success = False, fix_changes = [],
         fix_description = get_prop parsed ''description'',
         fix_reasoning = get_prop parsed ''reasoning'',
         fix_error = Some could_not_fix\<rparr>) \<and>
   (json_match text = None \<or>
    (\<exists>j msg. json_match text = Some j \<and> JSON_parse j = Inl msg \<and> msg \<noteq> could_not_fix) \<or>
    (\<exists>j v. json_match text = Some j \<and> JSON_parse j = Inr v \<and>
       (isNullish v \<or> \<not> truthy (get_prop v ''reasoning'') \<or>
        \<not> truthy (get_prop v ''description'') \<or>
        (\<forall>cs. get_prop v ''changes'' \<noteq> JArray cs))) \<longrightarrow>
      (\<exists>e. e \<noteq> could_not_fix \<and>
         parseClaudeResponse JSON_parse text =
           \<lparr>fix_success = False, fix_changes = [],
            fix_description = JString ''Failed to parse AI response'',
            fix_reasoning = JString (take 500 text),
            fix_error = Some e\<rparr>))"
proof (intro conjI impI)
  assume "json_match text = Some m \<and> JSON_parse m = Inr parsed \<and> \<not> isNullish parsed \<and>
    truthy (get_prop parsed ''reasoning'') \<and> truthy (get_prop parsed ''description'') \<and>
    get_prop parsed ''changes'' = JArray []"
  then show "parseClaudeResponse JSON_parse text =
        \<lparr>fix_success = False, fix_changes = [],
         fix_description = get_prop parsed ''description'',
         fix_reasoning = get_prop parsed ''reasoning'',
         fix_error = Some could_not_fix\<rparr>"
    by (simp add: parseClaudeResponse_def)
next
  let ?failed = "\<lambda>e. \<lparr>fix_success = False, fix_changes = [],
            fix_description = JString ''Failed to parse AI response'',
            fix_reasoning = JString (take 500 text),
            fix_error = Some e\<rparr>"
  have f: "parse_failed text err = ?failed (message err)" for err
    by (simp add: parse_failed_def)
  have literal: "''Invalid response structure'' \<noteq> could_not_fix"
    "''No JSON found in response'' \<noteq> could_not_fix"
    by (simp_all add: could_not_fix_def)
  assume a: "json_match text = None \<or>
    (\<exists>j msg. json_match text = Some j \<and> JSON_parse j = Inl msg \<and> msg \<noteq> could_not_fix) \<or>
    (\<exists>j v. json_match text = Some j \<and> JSON_parse j = Inr v \<and>
       (isNullish v \<or> \<not> truthy (get_prop v ''reasoning'') \<or>
        \<not> truthy (get_prop v ''description'') \<or>
        (\<forall>cs. get_prop v ''changes'' \<noteq> JArray cs)))"
  then consider
      (none) "json_match text = None"
    | (bad_syntax) j msg where "json_match text = Some j" "JSON_parse j = Inl msg" "msg \<noteq> could_not_fix"
    | (nullish) j v where "json_match text = Some j" "JSON_parse j = Inr v" "isNullish v"
    | (invalid) j v where "json_match text = Some j" "JSON_parse j = Inr v" "\<not> isNullish v"
        "\<not> truthy (get_prop v ''reasoning'') \<or> \<not> truthy (get_prop v ''description'') \<or>
         (\<forall>cs. get_prop v ''changes'' \<noteq> JArray cs)"
    by (elim disjE exE conjE) (metis+)
  then show "\<exists>e. e \<noteq> could_not_fix \<and> parseClaudeResponse JSON_parse text = ?failed e"
  proof cases
    case none
    then have "parseClaudeResponse JSON_parse text = ?failed ''No JSON found in response''"
      by (simp add: parseClaudeResponse_def f)
    with literal(2) show ?thesis by blast
  next
    case bad_syntax
    then have "parseClaudeResponse JSON_parse text = ?failed msg"
      by (simp add: parseClaudeResponse_def f)
    with bad_syntax(3) show ?thesis by blast
  next
    case nullish
    then have "parseClaudeResponse JSON_parse text = ?failed (message (cannot_read v ''reasoning''))"
      by (simp add: parseClaudeResponse_def f)
    with cannot_read_message show ?thesis by blast
  next
    case invalid
    then have "parseClaudeResponse JSON_parse text = ?failed ''Invalid response structure''"
      by (cases "get_prop v ''changes''") (auto simp: parseClaudeResponse_def f)
    with literal(1) show ?thesis by blast
  qed
qed


theorem parseClaudeResponse_failure_modes_witness:
  "parseClaudeResponse JSON_parse_ref no_fix_reply =
     \<lparr>fix_success = False, fix_changes = [], fix_description = JString ''No fix'',
      fix_reasoning = JString ''The cause is unclear'', fix_error = Some could_not_fix\<rparr> \<and>
   \<not> fix_success (parseClaudeResponse JSON_parse_ref not_json_reply) \<and>
   fix_reasoning (parseClaudeResponse JSON_parse_ref not_json_reply)
     = JString (take 500 not_json_reply) \<and>
   fix_error (parseClaudeResponse JSON_parse_ref not_json_reply) \<noteq> Some could_not_fix"
proof -
  have h1: "json_match no_fix_reply = Some no_fix_json \<and>
      JSON_parse_ref no_fix_json = Inr no_fix_value \<and> \<not> isNullish no_fix_value \<and>
      truthy (get_prop no_fix_value ''reasoning'') \<and>
      truthy (get_prop no_fix_value ''description'') \<and>
      get_prop no_fix_value ''changes'' = JArray []"
    by (simp add: no_fix_match no_fix_parse) (simp add: no_fix_value_def)
  have v: "get_prop no_fix_value ''description'' = JString ''No fix''"
    "get_prop no_fix_value ''reasoning'' = JString ''The cause is unclear''"
    by (simp_all add: no_fix_value_def)
  have h2: "\<exists>j msg. json_match not_json_reply = Some j \<and> JSON_parse_ref j = Inl msg \<and>
      msg \<noteq> could_not_fix"
    using not_json_match not_json_parse by (auto simp: could_not_fix_def)
  from parseClaudeResponse_failure_modes [of no_fix_reply no_fix_json JSON_parse_ref no_fix_value]
    h1 v
  have a: "parseClaudeResponse JSON_parse_ref no_fix_reply =
     \<lparr>fix_success = False, fix_changes = [], fix_description = JString ''No fix'',
      fix_reasoning = JString ''The cause is unclear'', fix_error = Some could_not_fix\<rparr>"
    by simp
  from parseClaudeResponse_failure_modes [of not_json_reply _ JSON_parse_ref] h2
  obtain e where e: "e \<noteq> could_not_fix"
    "parseClaudeResponse JSON_parse_ref not_json_reply =
       \<lparr>fix_success = False, fix_changes = [],
        fix_description = JString ''Failed to parse AI response'',
        fix_reasoning = JString (take 500 not_json_reply), fix_error = Some e\<rparr>"
    by blast
  show ?thesis using a e by simp
qed

text \<open>
  C10. The parser does not look into the entries of \<open>changes\<close>: whenever the extracted
  JSON parses to a value with truthy \<open>reasoning\<close> and \<open>description\<close> and a non-empty array
  \<open>changes\<close>, the result is a success that carries the array as it is. In the example
  after it the entries are the number 1 and an object with a \<open>path\<close> and no \<open>content\<close>.
\<close>

theorem parseClaudeResponse_no_entry_validation:
  assumes "json_match text = Some m" and "JSON_parse m = Inr parsed" and "\<not> isNullish parsed"
    and "truthy (get_prop parsed ''reasoning'')" and "truthy (get_prop parsed ''description'')"
    and "get_prop parsed ''changes'' = JArray (c # cs)"
  shows "parseClaudeResponse JSON_parse text =
     \<lparr>fix_success = True, fix_changes = c # cs,
      fix_description = get_prop parsed ''description'',
      fix_reasoning = get_prop parsed ''reasoning'', fix_error = None\<rparr>"
  using assms by (simp add: parseClaudeResponse_def)

theorem parseClaudeResponse_no_entry_validation_witness:
  "parseClaudeResponse JSON_parse_ref loose_reply =
     \<lparr>fix_success = True,
      fix_changes = [JNumber 1 0, JObject [(''path'', JString ''src/a.ts'')]],
      fix_description = JString ''Fix typo'', fix_reasoning = JString ''Typo'',
      fix_error = None\<rparr>"
proof -
  have v: "\<not> isNullish loose_value" "truthy (get_prop loose_value ''reasoning'')"
    "truthy (get_prop loose_value ''description'')"
    "get_prop loose_value ''changes'' = JArray [JNumber 1 0, JObject [(''path'', JString ''src/a.ts'')]]"
    "get_prop loose_value ''description'' = JString ''Fix typo''"
    "get_prop loose_value ''reasoning'' = JString ''Typo''"
    by (simp_all add: loose_value_def)
  from parseClaudeResponse_no_entry_validation
    [of loose_reply loose_json JSON_parse_ref loose_value "JNumber 1 0"
        "[JObject [(''path'', JString ''src/a.ts'')]]", OF loose_match loose_parse v(1,2,3,4)]
    v(5,6)
  show ?thesis by simp
qed

section \<open>Properties of the change applier\<close>

subsection \<open>The effects of each step\<close>






















subsection \<open>A run on which every effect succeeds\<close>





subsection \<open>The effects of \<open>fixBug\<close>\<close>


subsection \<open>The typo example\<close>










end
